theory Spec2Isabelle
  imports Complex_Main
begin

section \<open>Python values, exceptions and strings\<close>

text \<open>
  Exceptions of the Python sources are values: every function that can raise returns
  \<open>py_error + 'a\<close>, with \<open>Inl\<close> the exception. The payload is the text of the
  exception (\<open>str(e)\<close>). \<open>NameError\<close> carries the name that is not bound.
\<close>

datatype py_error =
    NameError string
  | ValueError string
  | TypeError string
  | KeyError string
  | IndexError string
  | RuntimeError string

text \<open>
  Python \<open>str\<close> is modelled as \<open>string\<close> holding the UTF-8 bytes of the text, so the
  emoji markers of the sources are byte sequences. Containment of one valid UTF-8 text in
  another is the same on bytes as on code points.
\<close>

fun startswith :: "string \<Rightarrow> string \<Rightarrow> bool" where
  "startswith s [] = True"
| "startswith [] (p # ps) = False"
| "startswith (c # cs) (p # ps) = (c = p \<and> startswith cs ps)"

text \<open>\<open>py_in sub s\<close> is Python's \<open>sub in s\<close> on strings.\<close>

fun py_in :: "string \<Rightarrow> string \<Rightarrow> bool" where
  "py_in sub [] = (sub = [])"
| "py_in sub (c # cs) = (startswith (c # cs) sub \<or> py_in sub cs)"

section \<open>Agent plugin registry (api/plugins/__init__.py)\<close>

datatype WebAgentType = BASE | EXAMPLE | BROWSER_USE | BROWSER_USE_BATCH

text \<open>\<open>str(name)\<close> of an enum member, as the f-string of the error message prints it.\<close>

fun str_WebAgentType :: "WebAgentType \<Rightarrow> string" where
  "str_WebAgentType BASE = ''WebAgentType.BASE''"
| "str_WebAgentType EXAMPLE = ''WebAgentType.EXAMPLE''"
| "str_WebAgentType BROWSER_USE = ''WebAgentType.BROWSER_USE''"
| "str_WebAgentType BROWSER_USE_BATCH = ''WebAgentType.BROWSER_USE_BATCH''"

text \<open>
  The three agent entry points of the repository. \<open>EP_browser_use_agent_batch\<close> is the
  function \<open>browser_use_agent_batch\<close> of api/plugins/browser_use.
\<close>

datatype entry_point =
    EP_base_agent
  | EP_browser_use_agent
  | EP_browser_use_agent_batch

text \<open>
  The callables that the import statements of api/plugins/__init__.py bind in the module:
  \<^verbatim>\<open>from .base import base_agent\<close> and
  \<^verbatim>\<open>from .browser_use import browser_use_agent\<close>. No statement of the module binds
  \<open>browser_use_agent_batch\<close>.
\<close>

definition plugins_globals :: "string \<rightharpoonup> entry_point" where
  "plugins_globals =
     [''base_agent'' \<mapsto> EP_base_agent, ''browser_use_agent'' \<mapsto> EP_browser_use_agent]"

text \<open>Reading a global name inside a function body: an unbound name raises NameError.\<close>

definition load_global :: "(string \<rightharpoonup> 'a) \<Rightarrow> string \<Rightarrow> py_error + 'a" where
  "load_global g n =
     (case g n of
        None \<Rightarrow> Inl (NameError (''name '' @ [CHR 0x27] @ n @ [CHR 0x27] @ '' is not defined''))
      | Some v \<Rightarrow> Inr v)"

definition get_web_agent :: "WebAgentType \<Rightarrow> py_error + entry_point" where
  "get_web_agent name =
     (if name = BASE then load_global plugins_globals ''base_agent''
      else if name = BROWSER_USE then load_global plugins_globals ''browser_use_agent''
      else if name = BROWSER_USE_BATCH then load_global plugins_globals ''browser_use_agent_batch''
      else Inl (ValueError (''Invalid agent type: '' @ str_WebAgentType name)))"

section \<open>Chat-model provider factory (api/providers.py)\<close>

text \<open>
  Modelled from the spec: the enumeration \<open>ModelProvider\<close> and the value object
  \<open>ModelConfig\<close> live in api/models.py, which is not among the sources. The spec gives
  the five members of the enumeration and the fields of ModelConfig (provider, optional
  model_name and api_key, optional numerics, and the open map extra_params).
  Python does not restrict the value stored in \<open>config.provider\<close>; \<open>Other_value s\<close>
  is any value that equals no member, with \<open>s\<close> its \<open>str()\<close>.
\<close>

datatype ModelProvider = OPENAI | AZURE_OPENAI | ANTHROPIC | GEMINI | DEEPSEEK

datatype provider_value = Provider ModelProvider | Other_value string

fun str_ModelProvider :: "ModelProvider \<Rightarrow> string" where
  "str_ModelProvider OPENAI = ''ModelProvider.OPENAI''"
| "str_ModelProvider AZURE_OPENAI = ''ModelProvider.AZURE_OPENAI''"
| "str_ModelProvider ANTHROPIC = ''ModelProvider.ANTHROPIC''"
| "str_ModelProvider GEMINI = ''ModelProvider.GEMINI''"
| "str_ModelProvider DEEPSEEK = ''ModelProvider.DEEPSEEK''"

fun str_provider_value :: "provider_value \<Rightarrow> string" where
  "str_provider_value (Provider p) = str_ModelProvider p"
| "str_provider_value (Other_value s) = s"

text \<open>Values passed as keyword arguments to the client constructors.\<close>

datatype pyval =
    PNone
  | PStr string
  | PInt int
  | PFloat real
  | PSecretStr string

record ModelConfig =
  provider :: provider_value
  model_name :: "string option"
  api_key :: "string option"
  temperature :: "real option"
  max_tokens :: "int option"
  top_p :: "real option"
  top_k :: "int option"
  frequency_penalty :: "real option"
  presence_penalty :: "real option"
  extra_params :: "(string \<times> pyval) list"

text \<open>
  The chat-model classes that the module can instantiate. \<open>BetaChatAnthropic\<close> is the
  subclass of \<open>ChatAnthropic\<close> that the module defines itself.
\<close>

datatype client_class =
    AzureChatOpenAI
  | ChatOpenAI
  | ChatAnthropic
  | BetaChatAnthropic
  | ChatGoogleGenerativeAI

text \<open>
  A constructed client: its class and the keyword arguments it was constructed with. The
  constructors are third-party code; the model records the call.
\<close>

record client =
  cls :: client_class
  kwargs :: "(string \<times> pyval) list"

text \<open>
  The call \<^verbatim>\<open>C(k1=v1, ..., **extra)\<close>: Python raises TypeError when a key of
  \<open>extra\<close> repeats an explicit keyword (the text names the first such key; the
  prefix that names the callable is left out).
\<close>

definition call_constructor ::
  "client_class \<Rightarrow> (string \<times> pyval) list \<Rightarrow> (string \<times> pyval) list \<Rightarrow> py_error + client" where
  "call_constructor c explicit extra =
     (case List.find (\<lambda>k. k \<in> set (map fst explicit)) (map fst extra) of
        Some k \<Rightarrow>
          Inl (TypeError (''got multiple values for keyword argument '' @ [CHR 0x27] @ k @ [CHR 0x27]))
      | None \<Rightarrow> Inr \<lparr>cls = c, kwargs = explicit @ extra\<rparr>)"

text \<open>\<^verbatim>\<open>config.model_name or default\<close>: None and the empty string are falsy.\<close>

fun or_default :: "string option \<Rightarrow> string \<Rightarrow> string" where
  "or_default None d = d"
| "or_default (Some s) d = (if s = [] then d else s)"

text \<open>\<^verbatim>\<open>os.getenv(NAME) if not config.api_key else config.api_key\<close>\<close>

fun key_or_env :: "(string \<rightharpoonup> string) \<Rightarrow> string \<Rightarrow> string option \<Rightarrow> string option" where
  "key_or_env env name None = env name"
| "key_or_env env name (Some k) = (if k = [] then env name else Some k)"

text \<open>\<^verbatim>\<open>os.getenv(NAME, default)\<close>\<close>

definition getenv_default :: "(string \<rightharpoonup> string) \<Rightarrow> string \<Rightarrow> string \<Rightarrow> string" where
  "getenv_default env name d = (case env name of None \<Rightarrow> d | Some v \<Rightarrow> v)"

fun of_str_option :: "string option \<Rightarrow> pyval" where
  "of_str_option None = PNone"
| "of_str_option (Some s) = PStr s"

fun of_float_option :: "real option \<Rightarrow> pyval" where
  "of_float_option None = PNone"
| "of_float_option (Some x) = PFloat x"

fun of_int_option :: "int option \<Rightarrow> pyval" where
  "of_int_option None = PNone"
| "of_int_option (Some n) = PInt n"

text \<open>The keyword arguments that \<open>create_llm\<close> writes out for each provider.\<close>

fun explicit_kwargs ::
  "(string \<rightharpoonup> string) \<Rightarrow> ModelConfig \<Rightarrow> ModelProvider \<Rightarrow> (string \<times> pyval) list" where
  "explicit_kwargs env config AZURE_OPENAI =
     [(''azure_deployment'', PStr (or_default (model_name config) ''gpt-4o-mini'')),
      (''temperature'', of_float_option (temperature config)),
      (''max_tokens'', of_int_option (max_tokens config)),
      (''openai_api_key'', of_str_option (key_or_env env ''AZURE_OPENAI_API_KEY'' (api_key config))),
      (''openai_api_version'', PStr (getenv_default env ''OPENAI_API_VERSION'' ''2025-01-01-preview'')),
      (''azure_endpoint'', PStr (getenv_default env ''AZURE_OPENAI_ENDPOINT'' []))]"
| "explicit_kwargs env config OPENAI =
     [(''model_name'', PStr (or_default (model_name config) ''gpt-4o-mini'')),
      (''temperature'', of_float_option (temperature config)),
      (''max_tokens'', of_int_option (max_tokens config)),
      (''api_key'', of_str_option (key_or_env env ''OPENAI_API_KEY'' (api_key config)))]"
| "explicit_kwargs env config ANTHROPIC =
     [(''model'', PStr (or_default (model_name config) ''claude-3-7-sonnet-latest'')),
      (''max_tokens_to_sample'', of_int_option (max_tokens config)),
      (''temperature'', of_float_option (temperature config)),
      (''api_key'', of_str_option (key_or_env env ''ANTHROPIC_API_KEY'' (api_key config)))]"
| "explicit_kwargs env config GEMINI =
     [(''model'', PStr (or_default (model_name config) ''gemini-2.0-flash'')),
      (''temperature'', of_float_option (temperature config)),
      (''max_output_tokens'', of_int_option (max_tokens config)),
      (''google_api_key'', of_str_option (key_or_env env ''GOOGLE_API_KEY'' (api_key config)))]"
| "explicit_kwargs env config DEEPSEEK =
     [(''base_url'', PStr ''https://api.deepseek.com/v1''),
      (''model_name'', PStr (or_default (model_name config) ''deepseek-chat'')),
      (''temperature'', of_float_option (temperature config)),
      (''max_tokens'', of_int_option (max_tokens config)),
      (''api_key'',
         PSecretStr (or_default (api_key config) (getenv_default env ''DEEPSEEK_API_KEY'' [])))]"

text \<open>
  \<open>create_llm\<close> returns the client and the vision flag, or raises. The environment
  (\<open>os.getenv\<close>) is the parameter \<open>env\<close>.
\<close>

definition create_llm :: "(string \<rightharpoonup> string) \<Rightarrow> ModelConfig \<Rightarrow> py_error + (client \<times> bool)" where
  "create_llm env config =
     (if provider config = Provider AZURE_OPENAI then
        map_sum id (\<lambda>c. (c, True))
          (call_constructor AzureChatOpenAI (explicit_kwargs env config AZURE_OPENAI) (extra_params config))
      else if provider config = Provider OPENAI then
        map_sum id (\<lambda>c. (c, True))
          (call_constructor ChatOpenAI (explicit_kwargs env config OPENAI) (extra_params config))
      else if provider config = Provider ANTHROPIC then
        map_sum id (\<lambda>c. (c, True))
          (call_constructor ChatAnthropic (explicit_kwargs env config ANTHROPIC) (extra_params config))
      else if provider config = Provider GEMINI then
        map_sum id (\<lambda>c. (c, True))
          (call_constructor ChatGoogleGenerativeAI (explicit_kwargs env config GEMINI) (extra_params config))
      else if provider config = Provider DEEPSEEK then
        map_sum id (\<lambda>c. (c, False))
          (call_constructor ChatOpenAI (explicit_kwargs env config DEEPSEEK) (extra_params config))
      else Inl (ValueError (''Unsupported provider: '' @ str_provider_value (provider config))))"

subsection \<open>The class BetaChatAnthropic\<close>

text \<open>
  An Anthropic API client has a standard message endpoint (\<open>client.messages\<close>) and a
  beta one (\<open>client.beta.messages\<close>). The record holds which endpoint each of the two
  attributes refers to.
\<close>

datatype endpoint = Standard_messages | Beta_messages

record anthropic_client =
  messages_attr :: endpoint
  beta_messages_attr :: endpoint

text \<open>The client that the base class \<open>ChatAnthropic\<close> builds (\<open>super()._client\<close>).\<close>

definition super_client :: anthropic_client where
  "super_client = \<lparr>messages_attr = Standard_messages, beta_messages_attr = Beta_messages\<rparr>"

text \<open>
  \<open>BetaChatAnthropic._client\<close> (and \<open>_async_client\<close>, which has the same body):
  \<^verbatim>\<open>client = super()._client; client.messages = client.beta.messages; return client\<close>
\<close>

definition beta_client :: anthropic_client where
  "beta_client = super_client\<lparr>messages_attr := beta_messages_attr super_client\<rparr>"

text \<open>The API client behind a chat model of each class; None for the other providers.\<close>

fun client_of :: "client_class \<Rightarrow> anthropic_client option" where
  "client_of ChatAnthropic = Some super_client"
| "client_of BetaChatAnthropic = Some beta_client"
| "client_of AzureChatOpenAI = None"
| "client_of ChatOpenAI = None"
| "client_of ChatGoogleGenerativeAI = None"

text \<open>
  A tool handed to \<open>bind_tools\<close> is a dict (given by its items) or any other object
  (a class, a callable, a BaseTool), given by a name.
\<close>

datatype tool = Dict_tool "(string \<times> pyval) list" | Object_tool string

text \<open>\<^verbatim>\<open>isinstance(tool, dict) and "type" in tool\<close>\<close>

fun in_anthropic_format :: "tool \<Rightarrow> bool" where
  "in_anthropic_format (Dict_tool items) = (''type'' \<in> set (map fst items))"
| "in_anthropic_format (Object_tool n) = False"

text \<open>
  \<open>BetaChatAnthropic.bind_tools\<close>: the list of tools handed on to \<open>super().bind\<close>.
  The standard conversion \<open>convert_to_anthropic_tool\<close> is third-party and a parameter.
\<close>

fun bind_tools :: "(tool \<Rightarrow> tool) \<Rightarrow> tool list \<Rightarrow> tool list" where
  "bind_tools convert_to_anthropic_tool [] = []"
| "bind_tools convert_to_anthropic_tool (t # tools) =
     (if in_anthropic_format t then t else convert_to_anthropic_tool t)
       # bind_tools convert_to_anthropic_tool tools"

subsection \<open>Reading the factory's result\<close>

text \<open>The class that \<open>create_llm\<close> instantiates for each member of the enumeration.\<close>

fun class_for :: "ModelProvider \<Rightarrow> client_class" where
  "class_for AZURE_OPENAI = AzureChatOpenAI"
| "class_for OPENAI = ChatOpenAI"
| "class_for ANTHROPIC = ChatAnthropic"
| "class_for GEMINI = ChatGoogleGenerativeAI"
| "class_for DEEPSEEK = ChatOpenAI"

text \<open>
  No key of \<open>extra_params\<close> repeats a keyword that \<open>create_llm\<close> writes out itself
  for provider \<open>p\<close>.
\<close>

definition clash_free :: "(string \<rightharpoonup> string) \<Rightarrow> ModelConfig \<Rightarrow> ModelProvider \<Rightarrow> bool" where
  "clash_free env config p =
     list_all (\<lambda>k. k \<notin> set (map fst (explicit_kwargs env config p)))
       (map fst (extra_params config))"

text \<open>
  The message endpoint that calls of the returned chat model go through: the
  \<open>messages\<close> attribute of the API client behind the model's class.
\<close>

definition routed_endpoint :: "py_error + (client \<times> bool) \<Rightarrow> endpoint option" where
  "routed_endpoint r =
     (case r of Inl e \<Rightarrow> None | Inr (c, v) \<Rightarrow> map_option messages_attr (client_of (cls c)))"

text \<open>Example configurations.\<close>

definition anthropic_config :: ModelConfig where
  "anthropic_config =
     \<lparr>provider = Provider ANTHROPIC, model_name = None, api_key = None,
      temperature = Some 0.7, max_tokens = Some 1000,
      top_p = None, top_k = None, frequency_penalty = None, presence_penalty = None,
      extra_params = []\<rparr>"

definition deepseek_config :: ModelConfig where
  "deepseek_config =
     \<lparr>provider = Provider DEEPSEEK, model_name = None, api_key = Some ''sk-test'',
      temperature = Some 0.7, max_tokens = Some 1000,
      top_p = None, top_k = None, frequency_penalty = None, presence_penalty = None,
      extra_params = []\<rparr>"

definition deepseek_clash_config :: ModelConfig where
  "deepseek_clash_config =
     \<lparr>provider = Provider DEEPSEEK, model_name = None, api_key = None,
      temperature = None, max_tokens = None,
      top_p = None, top_k = None, frequency_penalty = None, presence_penalty = None,
      extra_params = [(''base_url'', PStr ''http://localhost:8080/v1'')]\<rparr>"

definition unsupported_config :: ModelConfig where
  "unsupported_config =
     \<lparr>provider = Other_value ''cohere'', model_name = None, api_key = None,
      temperature = None, max_tokens = None,
      top_p = None, top_k = None, frequency_penalty = None, presence_penalty = None,
      extra_params = []\<rparr>"

text \<open>Two tools already in the provider's native format, as \<open>bind_tools\<close> tests it.\<close>

definition native_tools :: "tool list" where
  "native_tools =
     [Dict_tool [(''type'', PStr ''computer_20241022''), (''name'', PStr ''computer'')],
      Dict_tool [(''name'', PStr ''bash''), (''type'', PStr ''bash_20241022'')]]"

section \<open>Session creation (api/index.py, api/schemas.py)\<close>

record SessionRequest =
  agent_type :: WebAgentType
  api_key :: "string option"
  timeout :: "int option"

text \<open>
  A request body that leaves out the optional fields: \<open>api_key\<close> is None and \<open>timeout\<close>
  is 90000. A body with \<open>"timeout": null\<close> gives \<open>timeout = None\<close>.
\<close>

definition SessionRequest_defaults :: "WebAgentType \<Rightarrow> SessionRequest" where
  "SessionRequest_defaults t = \<lparr>agent_type = t, api_key = None, timeout = Some 90000\<rparr>"

text \<open>The call made on the remote session service, with its \<open>api_timeout\<close> argument.\<close>

datatype steel_call = Sessions_create int

definition create_session :: "SessionRequest \<Rightarrow> py_error + steel_call" where
  "create_session request =
     (case timeout request of
        None \<Rightarrow>
          Inl (TypeError (''unsupported operand type(s) for *: 'NoneType' and 'int'' @ [CHR 0x27]))
      | Some t \<Rightarrow> Inr (Sessions_create (t * 1000)))"

section \<open>Chat dispatch (api/index.py, handle_chat)\<close>

text \<open>
  Modelled from the spec: \<open>ClientMessage\<close> and \<open>convert_to_chat_messages\<close>
  (api/utils/prompt.py), \<open>AgentSettings\<close> and \<open>ModelSettings\<close> (api/utils/types.py)
  are not among the sources. The spec gives a chat turn a role and a content, and has the
  conversion keep every turn, in order, as a role/content mapping; the settings are the
  step count and the optional model fields.
\<close>

record ClientMessage =
  role :: string
  content :: string

definition convert_to_chat_messages :: "ClientMessage list \<Rightarrow> (string \<times> string) list list" where
  "convert_to_chat_messages messages =
     map (\<lambda>m. [(''role'', role m), (''content'', content m)]) messages"

record AgentSettings =
  steps :: "int option"

record ModelSettings =
  model_choice :: "string option"
  ms_temperature :: "real option"
  ms_max_tokens :: "int option"
  ms_top_p :: "real option"
  ms_top_k :: "int option"
  ms_frequency_penalty :: "real option"
  ms_presence_penalty :: "real option"

record ChatRequest =
  session_id :: string
  chat_agent_type :: WebAgentType
  chat_provider :: ModelProvider
  messages :: "ClientMessage list"
  chat_api_key :: string
  agent_settings :: AgentSettings
  model_settings :: ModelSettings

text \<open>
  The process-wide controller of api/plugins/browser_use/agent.py, as far as the gateway
  reads and writes it: the bound session id (None until one is set) and the finished flag.
\<close>

record controller_state =
  controller_session_id :: "string option"
  controller_finished :: bool

text \<open>
  The names that api/index.py binds at module level (imports, assignments and function
  definitions, in source order). A name that a function body reads and that is neither
  local, nor in this list, nor a builtin raises NameError when the line runs.
  \<open>empty_stream\<close> is not a builtin.
\<close>

definition index_globals :: "string list" where
  "index_globals =
     [''load_dotenv'', ''FastAPI'', ''Response'', ''HTTPException'', ''status'', ''Depends'',
      ''CORSMiddleware'', ''StreamingResponse'', ''ChatRequest'', ''SessionRequest'',
      ''TestCreate'', ''TestResponse'', ''ReportCreate'', ''ReportResponse'',
      ''BatchAgentRequest'', ''convert_to_chat_messages'', ''ModelConfig'', ''WebAgentType'',
      ''get_web_agent'', ''AGENT_CONFIGS'', ''stream_vercel_format'', ''ProfilingMiddleware'',
      ''BaseModel'', ''List'', ''Dict'', ''Any'', ''Optional'', ''Union'', ''os'', ''asyncio'',
      ''subprocess'', ''re'', ''time'', ''logging'', ''datetime'', ''AgentSettings'', ''logger'',
      ''Steel'', ''port'', ''app'', ''STEEL_API_KEY'', ''ANTHROPIC_API_KEY'', ''STEEL_API_URL'',
      ''steel_client'', ''session_locks'', ''session_last_resume'', ''RESUME_COOLDOWN'',
      ''batch_job_status'', ''origins'', ''root_health_check'', ''create_session'',
      ''release_session'', ''resume_session'', ''pause_session'', ''handle_chat'',
      ''get_available_agents'', ''healthcheck'', ''create_test'', ''create_report'',
      ''run_browser_agent_batch'', ''check_batch_status'']"

definition load_name :: "string list \<Rightarrow> string \<Rightarrow> py_error + unit" where
  "load_name names n =
     (if n \<in> set names then Inr ()
      else Inl (NameError (''name '' @ [CHR 0x27] @ n @ [CHR 0x27] @ '' is not defined'')))"

text \<open>
  What a streamed response streams: the encoding (\<open>stream_vercel_format\<close>) of the empty
  stream, or of a new run of an agent entry point on the request's data.
\<close>

datatype stream_source =
    Empty_stream
  | Agent_run entry_point ModelConfig AgentSettings "(string \<times> string) list list" string

text \<open>The body of the error that \<open>handle_chat\<close> builds from an exception.\<close>

record error_detail =
  err_message :: string
  err_type :: string
  err_code :: nat

datatype http_response =
    StreamingResponse stream_source "(string \<times> string) list"
  | PlainResponse nat string
  | HTTPException nat error_detail

fun type_name :: "py_error \<Rightarrow> string" where
  "type_name (NameError m) = ''NameError''"
| "type_name (ValueError m) = ''ValueError''"
| "type_name (TypeError m) = ''TypeError''"
| "type_name (KeyError m) = ''KeyError''"
| "type_name (IndexError m) = ''IndexError''"
| "type_name (RuntimeError m) = ''RuntimeError''"

fun str_error :: "py_error \<Rightarrow> string" where
  "str_error (NameError m) = m"
| "str_error (ValueError m) = m"
| "str_error (TypeError m) = m"
| "str_error (KeyError m) = m"
| "str_error (IndexError m) = m"
| "str_error (RuntimeError m) = m"

text \<open>
  The \<open>except\<close> clause of \<open>handle_chat\<close>: none of the exceptions above has an attribute
  \<open>code\<close>, so \<open>getattr(e, "code", 500)\<close> is 500.
\<close>

definition error_response :: "py_error \<Rightarrow> http_response" where
  "error_response e =
     HTTPException 500 \<lparr>err_message = str_error e, err_type = type_name e, err_code = 500\<rparr>"

text \<open>
  \<^verbatim>\<open>return StreamingResponse(stream_vercel_format(empty_stream()), media_type=...)\<close>:
  evaluating the argument reads the global name \<open>empty_stream\<close>.
\<close>

definition return_empty_stream :: "py_error + http_response" where
  "return_empty_stream =
     (case load_name index_globals ''empty_stream'' of
        Inl e \<Rightarrow> Inl e
      | Inr u \<Rightarrow> Inr (StreamingResponse Empty_stream []))"

definition model_config_of :: "ChatRequest \<Rightarrow> ModelConfig" where
  "model_config_of request =
     \<lparr>provider = Provider (chat_provider request),
      model_name = model_choice (model_settings request),
      api_key = Some (chat_api_key request),
      temperature = ms_temperature (model_settings request),
      max_tokens = ms_max_tokens (model_settings request),
      top_p = ms_top_p (model_settings request),
      top_k = ms_top_k (model_settings request),
      frequency_penalty = ms_frequency_penalty (model_settings request),
      presence_penalty = ms_presence_penalty (model_settings request),
      extra_params = []\<rparr>"

text \<open>
  The \<open>try\<close> block of \<open>handle_chat\<close>: the value returned or the exception raised, and
  the controller afterwards.
\<close>

definition handle_chat_try ::
  "controller_state \<Rightarrow> ChatRequest \<Rightarrow> (py_error + http_response) \<times> controller_state" where
  "handle_chat_try controller request =
     (let chat_messages = convert_to_chat_messages (messages request) in
      if messages request = [] \<or>
         (length (messages request) > 0 \<and> content (last (messages request)) = [])
      then (return_empty_stream, controller)
      else if session_id request = []
      then (Inr (PlainResponse 400 ''Session ID is required''), controller)
      else if controller_session_id controller = Some (session_id request) \<and>
              controller_finished controller
      then (return_empty_stream, controller)
      else
        let controller' = controller\<lparr>controller_session_id := Some (session_id request),
                                      controller_finished := False\<rparr>
        in case get_web_agent (chat_agent_type request) of
             Inl e \<Rightarrow> (Inl e, controller')
           | Inr web_agent \<Rightarrow>
               (Inr (StreamingResponse
                       (Agent_run web_agent (model_config_of request) (agent_settings request)
                          chat_messages (session_id request))
                       [(''x-vercel-ai-data-stream'', ''v1'')]),
                controller'))"

definition handle_chat :: "controller_state \<Rightarrow> ChatRequest \<Rightarrow> http_response \<times> controller_state" where
  "handle_chat controller request =
     (case handle_chat_try controller request of
        (Inl e, controller') \<Rightarrow> (error_response e, controller')
      | (Inr response, controller') \<Rightarrow> (response, controller'))"

text \<open>Whether a response starts a new agent run.\<close>

fun creates_agent_run :: "http_response \<Rightarrow> bool" where
  "creates_agent_run (StreamingResponse (Agent_run a c s h i) hs) = True"
| "creates_agent_run (StreamingResponse Empty_stream hs) = False"
| "creates_agent_run (PlainResponse n s) = False"
| "creates_agent_run (HTTPException n d) = False"

text \<open>Example requests: no messages; a blank last message and no session id.\<close>

definition no_settings :: ModelSettings where
  "no_settings =
     \<lparr>model_choice = None, ms_temperature = None, ms_max_tokens = None, ms_top_p = None,
      ms_top_k = None, ms_frequency_penalty = None, ms_presence_penalty = None\<rparr>"

definition empty_chat_request :: ChatRequest where
  "empty_chat_request =
     \<lparr>session_id = ''session-1'', chat_agent_type = BROWSER_USE, chat_provider = ANTHROPIC,
      messages = [], chat_api_key = [], agent_settings = \<lparr>steps = Some 100\<rparr>,
      model_settings = no_settings\<rparr>"

definition blank_chat_request :: ChatRequest where
  "blank_chat_request =
     \<lparr>session_id = [], chat_agent_type = BROWSER_USE, chat_provider = ANTHROPIC,
      messages = [\<lparr>role = ''user'', content = ''open example.com''\<rparr>,
                  \<lparr>role = ''user'', content = []\<rparr>],
      chat_api_key = [], agent_settings = \<lparr>steps = Some 100\<rparr>,
      model_settings = no_settings\<rparr>"

definition idle_controller :: controller_state where
  "idle_controller = \<lparr>controller_session_id = Some ''session-0'', controller_finished = True\<rparr>"

section \<open>Session resume (api/index.py, resume_session)\<close>

text \<open>
  The gateway's state for resume requests: per session id a lock (\<open>True\<close> while it is
  held) and the time of the last resume. Times are the values of \<open>time.time()\<close>, taken
  as real numbers. The model handles one request at a time; whether a lock that is held
  when the request arrives is released within the 0.5 s of the timed wait is the
  parameter \<open>released_in_time\<close>.
\<close>

record gateway_state =
  session_locks :: "string \<rightharpoonup> bool"
  session_last_resume :: "string \<rightharpoonup> real"

definition RESUME_COOLDOWN :: real where
  "RESUME_COOLDOWN = 1.0"

text \<open>
  One call of \<open>resume_execution\<close>: it returns a dict with a status and a message, or
  raises (given by the text of the exception).
\<close>

datatype attempt = Returns string string | Raises string

record resume_json =
  status :: string
  message :: string
  is_resumed :: "bool option"
  timestamp :: "real option"

datatype resume_response = Json resume_json | HTTP_500 string

definition already_in_progress :: "real \<Rightarrow> resume_response" where
  "already_in_progress now =
     Json \<lparr>status = ''success'', message = ''Resume already in progress'',
           is_resumed = Some True, timestamp = Some now\<rparr>"

definition failed_after_attempts :: resume_response where
  "failed_after_attempts =
     Json \<lparr>status = ''error'', message = ''Failed to resume session after multiple attempts'',
           is_resumed = Some False, timestamp = None\<rparr>"

text \<open>
  The loop \<^verbatim>\<open>for attempt in range(max_attempts)\<close> with what follows it:
  \<open>resume_attempts run now i k last_error\<close> runs the attempts \<open>i, ..., i + k - 1\<close>,
  where \<open>run i\<close> is the outcome of the call in attempt \<open>i\<close>. The result is the
  response and the number of calls of \<open>resume_execution\<close>.
\<close>

fun resume_attempts ::
  "(nat \<Rightarrow> attempt) \<Rightarrow> real \<Rightarrow> nat \<Rightarrow> nat \<Rightarrow> string option \<Rightarrow> resume_response \<times> nat" where
  "resume_attempts run now i 0 last_error =
     (case last_error of
        Some e \<Rightarrow> (HTTP_500 e, 0)
      | None \<Rightarrow> (failed_after_attempts, 0))"
| "resume_attempts run now i (Suc k) last_error =
     (case run i of
        Returns st msg \<Rightarrow>
          if st = ''success''
          then (Json \<lparr>status = st, message = msg, is_resumed = Some True,
                      timestamp = Some now\<rparr>, 1)
          else (case resume_attempts run now (Suc i) k last_error of (r, n) \<Rightarrow> (r, Suc n))
      | Raises e \<Rightarrow>
          (case resume_attempts run now (Suc i) k (Some e) of (r, n) \<Rightarrow> (r, Suc n)))"

definition in_cooldown :: "gateway_state \<Rightarrow> string \<Rightarrow> real \<Rightarrow> bool" where
  "in_cooldown g sid now =
     (case session_last_resume g sid of
        None \<Rightarrow> False
      | Some t \<Rightarrow> now - t < RESUME_COOLDOWN)"

text \<open>
  \<open>resume_session\<close>: the response, the state afterwards and the number of calls of
  \<open>resume_execution\<close>.
\<close>

definition resume_session ::
  "gateway_state \<Rightarrow> string \<Rightarrow> real \<Rightarrow> bool \<Rightarrow> (nat \<Rightarrow> attempt) \<Rightarrow>
     resume_response \<times> gateway_state \<times> nat" where
  "resume_session g sid now released_in_time run =
     (if in_cooldown g sid now then (already_in_progress now, g, 0)
      else
        let g1 = (if sid \<in> dom (session_locks g) then g
                  else g\<lparr>session_locks := (session_locks g)(sid \<mapsto> False)\<rparr>)
        in if session_locks g1 sid = Some True \<and> \<not> released_in_time
           then (already_in_progress now, g1, 0)
           else
             let g2 = g1\<lparr>session_locks := (session_locks g1)(sid \<mapsto> True),
                         session_last_resume := (session_last_resume g1)(sid \<mapsto> now)\<rparr>;
                 (r, n) = resume_attempts run now 0 2 None
             in (r, g2\<lparr>session_locks := (session_locks g2)(sid \<mapsto> False)\<rparr>, n))"

text \<open>The first request gets as far as the resume itself: no cooldown, and the lock is had.\<close>

definition performs_resume :: "gateway_state \<Rightarrow> string \<Rightarrow> real \<Rightarrow> bool \<Rightarrow> bool" where
  "performs_resume g sid now released_in_time =
     (\<not> in_cooldown g sid now \<and> (session_locks g sid \<noteq> Some True \<or> released_in_time))"

text \<open>
  Two requests for one session, one after the other: the two responses and the number
  of calls of \<open>resume_execution\<close> that each made.
\<close>

definition resume_twice ::
  "gateway_state \<Rightarrow> string \<Rightarrow> real \<Rightarrow> (nat \<Rightarrow> attempt) \<Rightarrow> real \<Rightarrow> (nat \<Rightarrow> attempt) \<Rightarrow>
     (resume_response \<times> nat) \<times> (resume_response \<times> nat)" where
  "resume_twice g sid t1 run1 t2 run2 =
     (case resume_session g sid t1 True run1 of
        (r1, g1, n1) \<Rightarrow>
          (case resume_session g1 sid t2 True run2 of
             (r2, g2, n2) \<Rightarrow> ((r1, n1), (r2, n2))))"

text \<open>Example data: a session resumed at time 0, and a resume that succeeds at once.\<close>

definition resumed_at_0 :: gateway_state where
  "resumed_at_0 =
     \<lparr>session_locks = [''session-1'' \<mapsto> False], session_last_resume = [''session-1'' \<mapsto> 0]\<rparr>"

definition fresh_gateway :: gateway_state where
  "fresh_gateway = \<lparr>session_locks = Map.empty, session_last_resume = Map.empty\<rparr>"

definition resume_ok :: "nat \<Rightarrow> attempt" where
  "resume_ok i = Returns ''success'' ''Agent resumed''"

section \<open>Browser agent module (api/plugins/browser_use/agent.py)\<close>

subsection \<open>Messages and the metrics store\<close>

text \<open>The emoji of the message texts, as their UTF-8 bytes.\<close>

definition emoji_chart :: string where
  "emoji_chart = [CHR 0xF0, CHR 0x9F, CHR 0x93, CHR 0x8A]"

definition emoji_rocket :: string where
  "emoji_rocket = [CHR 0xF0, CHR 0x9F, CHR 0x9A, CHR 0x80]"

definition emoji_check :: string where
  "emoji_check = [CHR 0xE2, CHR 0x9C, CHR 0x85]"

definition emoji_warning :: string where
  "emoji_warning = [CHR 0xE2, CHR 0x9A, CHR 0xA0, CHR 0xEF, CHR 0xB8, CHR 0x8F]"

text \<open>
  What the run's queue carries: an \<open>AIMessage\<close> (content, tool calls), a
  \<open>ToolMessage\<close> (content, tool call id), the dict \<^verbatim>\<open>{"stop": True}\<close>, or a string
  (the sentinel is the string \<open>END\<close>). The generator yields items of the same kind.
\<close>

record tool_call =
  tc_name :: string
  tc_args :: "(string \<times> string) list"
  tc_id :: string

datatype queue_item =
    AIMessage string "tool_call list"
  | ToolMessage string string
  | Stop_dict
  | Str_item string

definition END :: queue_item where
  "END = Str_item ''END''"

text \<open>
  The metrics of a session: per page URL a dict from metric type to the stored data. A
  dict is a list of items in insertion order; the stored data are given by their text.
\<close>

type_synonym page_data = "(string \<times> string) list"

type_synonym pages = "(string \<times> page_data) list"

text \<open>\<^verbatim>\<open>d[k] = v\<close> on a dict: an existing key keeps its place, a new key goes last.\<close>

fun dict_set :: "'k \<Rightarrow> 'v \<Rightarrow> ('k \<times> 'v) list \<Rightarrow> ('k \<times> 'v) list" where
  "dict_set k v [] = [(k, v)]"
| "dict_set k v ((k', v') # kvs) =
     (if k' = k then (k, v) # kvs else (k', v') # dict_set k v kvs)"

text \<open>
  The state of the module: the controller singleton (bound session id, finished flag),
  the attribute \<open>yield_data._done_processed\<close> (None while the attribute is not set),
  the globals \<open>_agent_resumed\<close>, \<open>session_metrics_storage\<close>, \<open>active_browsers\<close>,
  \<open>active_browser_contexts\<close> and \<open>queue\<close>, and the paused flag of the bound agent.
  A browser is given by its CDP URL, a browsing context by the URL of its browser.
  \<open>browsers_created\<close> lists the CDP URLs of the \<open>Browser(...)\<close> constructions made so
  far.
\<close>

record agent_module =
  controller :: controller_state
  done_processed :: "bool option"
  agent_resumed :: bool
  agent_paused :: bool
  session_metrics_storage :: "string \<rightharpoonup> pages"
  active_browsers :: "string \<rightharpoonup> string"
  active_browser_contexts :: "string \<rightharpoonup> string"
  browsers_created :: "string list"
  queue :: "queue_item list"

definition finished :: "agent_module \<Rightarrow> bool" where
  "finished m = controller_finished (controller m)"

definition set_finished :: "bool \<Rightarrow> agent_module \<Rightarrow> agent_module" where
  "set_finished b m = m\<lparr>controller := (controller m)\<lparr>controller_finished := b\<rparr>\<rparr>"

text \<open>
  \<^verbatim>\<open>asyncio.get_event_loop().call_soon_threadsafe(queue.put_nowait, x)\<close>: the puts that
  a callback schedules run in the order scheduled; the model appends at once.
\<close>

definition put :: "queue_item \<Rightarrow> agent_module \<Rightarrow> agent_module" where
  "put x m = m\<lparr>queue := queue m @ [x]\<rparr>"

text \<open>
  \<open>controller._get_current_session_metrics()\<close>, reduced to its \<open>pages\<close>: without a
  session id an empty dict; otherwise the session's entry, which the defaultdict creates
  when it is read first.
\<close>

definition current_pages :: "agent_module \<Rightarrow> pages" where
  "current_pages m =
     (case controller_session_id (controller m) of
        None \<Rightarrow> []
      | Some sid \<Rightarrow>
          if sid = [] then []
          else (case session_metrics_storage m sid of None \<Rightarrow> [] | Some ps \<Rightarrow> ps))"

definition touch_session :: "string \<Rightarrow> agent_module \<Rightarrow> agent_module" where
  "touch_session sid m =
     (case session_metrics_storage m sid of
        None \<Rightarrow> m\<lparr>session_metrics_storage := (session_metrics_storage m)(sid \<mapsto> [])\<rparr>
      | Some ps \<Rightarrow> m)"

definition get_current_session_metrics :: "agent_module \<Rightarrow> pages \<times> agent_module" where
  "get_current_session_metrics m =
     (case controller_session_id (controller m) of
        None \<Rightarrow> ([], m)
      | Some sid \<Rightarrow> if sid = [] then ([], m) else (current_pages m, touch_session sid m))"

text \<open>\<open>controller._store_metric(page_url, metric_type, data)\<close>\<close>

definition store_metric :: "string \<Rightarrow> string \<Rightarrow> string \<Rightarrow> agent_module \<Rightarrow> agent_module" where
  "store_metric page_url metric_type data m =
     (case controller_session_id (controller m) of
        None \<Rightarrow> m
      | Some sid \<Rightarrow>
          if sid = [] then m
          else
            let ps = current_pages m;
                page = (case map_of ps page_url of None \<Rightarrow> [] | Some pd \<Rightarrow> pd)
            in m\<lparr>session_metrics_storage :=
                   (session_metrics_storage m)
                     (sid \<mapsto> dict_set page_url (dict_set metric_type data page) ps)\<rparr>)"

text \<open>The first page, in the order of the dict, that has a \<open>full_report\<close>.\<close>

fun first_full_report :: "pages \<Rightarrow> string option" where
  "first_full_report [] = None"
| "first_full_report ((url, page_data) # ps) =
     (case map_of page_data ''full_report'' of
        Some r \<Rightarrow> Some r
      | None \<Rightarrow> first_full_report ps)"

text \<open>The loop that finds the page with the most metrics (the first of them).\<close>

fun best_page :: "pages \<Rightarrow> (string \<times> page_data) option \<Rightarrow> (string \<times> page_data) option" where
  "best_page [] best = best"
| "best_page ((url, page_data) # ps) best =
     (case best of
        None \<Rightarrow> best_page ps (Some (url, page_data))
      | Some (best_url, best_metrics) \<Rightarrow>
          if length page_data > length best_metrics
          then best_page ps (Some (url, page_data))
          else best_page ps best)"

subsection \<open>The report texts\<close>

definition no_data_report :: string where
  \<open>no_data_report =
     emoji_chart @ '' Performance Metrics:\<newline>'' @
     ''\<newline>'' @
     ''No performance data has been collected yet.\<newline>'' @
     ''\<newline>'' @
     ''To collect detailed metrics, please try:\<newline>'' @
     ''1. "Generate performance report"\<newline>'' @
     ''2. "Get session exploration summary"\<newline>'' @
     ''\<newline>'' @
     ''These commands will analyze the current page and gather performance data.''\<close>

definition error_report_text :: "string \<Rightarrow> string" where
  \<open>error_report_text e =
     emoji_chart @ '' Performance Metrics:\<newline>'' @
     ''\<newline>'' @
     emoji_warning @ '' Error retrieving performance data: '' @
     e @
     ''\<newline>'' @
     ''\<newline>'' @
     ''To collect detailed metrics, please try again with:\<newline>'' @
     ''"Generate performance report" ''\<close>

definition basic_report_header :: "string \<Rightarrow> string" where
  \<open>basic_report_header best_url =
     emoji_chart @ '' Page Performance Metrics for '' @ best_url @ '':\<newline>'' @
     ''\<newline>''\<close>

text \<open>
  \<open>show_performance_metrics\<close>: the report and the state afterwards. The sections that
  the function formats from the raw performance, network and anomaly data of the best
  page are the parameter \<open>basic_sections\<close> (the text appended after the header, or the
  exception that the formatting raises).
\<close>

definition show_performance_metrics ::
  "(page_data \<Rightarrow> py_error + string) \<Rightarrow> agent_module \<Rightarrow> string \<times> agent_module" where
  "show_performance_metrics basic_sections m =
     (case get_current_session_metrics m of
        (ps, m1) \<Rightarrow>
          (case first_full_report ps of
             Some r \<Rightarrow> (r, m1)
           | None \<Rightarrow>
               (case best_page ps None of
                  None \<Rightarrow> (no_data_report, m1)
                | Some (best_url, best_metrics) \<Rightarrow>
                    if best_url \<noteq> [] \<and> best_metrics \<noteq> []
                    then (case basic_sections best_metrics of
                            Inl e \<Rightarrow> (error_report_text (str_error e), m1)
                          | Inr sections \<Rightarrow>
                              (basic_report_header best_url @ sections,
                               store_metric best_url ''full_report''
                                 (basic_report_header best_url @ sections) m1))
                    else (no_data_report, m1))))"

definition html_report_head :: string where
  \<open>html_report_head =
     ''\<newline>'' @
     ''<!DOCTYPE html>\<newline>'' @
     ''<html>\<newline>'' @
     ''<head>\<newline>'' @
     ''    <style>\<newline>'' @
     ''        .report-container {\<newline>'' @
     ''            padding: 20px;\<newline>'' @
     ''            background: #f5f5f5;\<newline>'' @
     ''            border: 2px solid #ccc;\<newline>'' @
     ''            border-radius: 10px;\<newline>'' @
     ''            margin: 20px 0;\<newline>'' @
     ''            font-family: Arial, sans-serif;\<newline>'' @
     ''        }\<newline>'' @
     ''        .report-title {\<newline>'' @
     ''            color: #2c3e50;\<newline>'' @
     ''            text-align: center;\<newline>'' @
     ''            border-bottom: 1px solid #ccc;\<newline>'' @
     ''            padding-bottom: 10px;\<newline>'' @
     ''            margin-bottom: 15px;\<newline>'' @
     ''            font-size: 20px;\<newline>'' @
     ''            font-weight: bold;\<newline>'' @
     ''        }\<newline>'' @
     ''        .report-content {\<newline>'' @
     ''            white-space: pre-wrap;\<newline>'' @
     ''            font-family: monospace;\<newline>'' @
     ''            background: #fff;\<newline>'' @
     ''            padding: 15px;\<newline>'' @
     ''            border-radius: 5px;\<newline>'' @
     ''            font-size: 14px;\<newline>'' @
     ''            line-height: 1.4;\<newline>'' @
     ''            overflow-x: auto;\<newline>'' @
     ''        }\<newline>'' @
     ''    </style>\<newline>'' @
     ''</head>\<newline>'' @
     ''<body>\<newline>'' @
     ''    <div class="report-container">\<newline>'' @
     ''        <div class="report-title">'' @ emoji_rocket @ '' PERFORMANCE REPORT '' @ emoji_rocket @ ''</div>\<newline>'' @
     ''        <div class="report-content">\<newline>''\<close>

definition html_report_tail :: string where
  \<open>html_report_tail =
     ''\<newline>'' @
     ''        </div>\<newline>'' @
     ''    </div>\<newline>'' @
     ''</body>\<newline>'' @
     ''</html>\<newline>''\<close>

text \<open>
  \<open>force_display_report\<close>: the HTML document around the first full report of the
  session, or around "No performance data available" when there is none or it is empty.
  (Reading the metrics of a session without an entry makes the defaultdict create the
  empty entry; this function does not record that.)
\<close>

definition force_display_report :: "agent_module \<Rightarrow> string" where
  "force_display_report m =
     html_report_head @
     (case first_full_report (current_pages m) of
        None \<Rightarrow> ''No performance data available''
      | Some report \<Rightarrow> if report \<noteq> [] then report else ''No performance data available'') @
     html_report_tail"

subsection \<open>The step callback \<open>yield_data\<close>\<close>

text \<open>
  What the runtime hands to the step callback: the agent's current state and the actions
  of the step. An action model is given by the items of its \<open>model_dump()\<close>: per
  action name the parameters of the action (a dict, its values given by their text, None
  for a parameter that is not set), or None for an action that the step does not take.
\<close>

record agent_brain =
  evaluation_previous_goal :: string
  memory :: string
  next_goal :: string

type_synonym action_dump = "(string \<times> (string \<times> string option) list option) list"

record agent_output =
  current_state :: agent_brain
  action :: "action_dump list"

text \<open>Python's truth value of such a value: None and the empty dict are false.\<close>

fun truthy_value :: "(string \<times> string option) list option \<Rightarrow> bool" where
  "truthy_value None = False"
| "truthy_value (Some d) = (d \<noteq> [])"

definition has_done_action :: "agent_output \<Rightarrow> bool" where
  "has_done_action agent_output =
     list_ex (\<lambda>action_model. list_ex (\<lambda>(key, value). key = ''done'' \<and> truthy_value value)
                action_model)
       (action agent_output)"

text \<open>
  \<^verbatim>\<open>value['text']\<close>: a missing key raises KeyError, whose text is the key in
  quotes. The f-strings print a None as \<open>None\<close>; an \<open>AIMessage\<close> whose content is
  None is refused by the message class (the text of its validation error is not
  reproduced).
\<close>

definition done_text :: "(string \<times> string option) list \<Rightarrow> py_error + string option" where
  "done_text d =
     (case map_of d ''text'' of
        None \<Rightarrow> Inl (KeyError ([CHR 0x27] @ ''text'' @ [CHR 0x27]))
      | Some t \<Rightarrow> Inr t)"

definition plain_done_message :: "string option \<Rightarrow> py_error + queue_item" where
  "plain_done_message text =
     (case text of
        None \<Rightarrow> Inl (ValueError ''AIMessage: content is None'')
      | Some t \<Rightarrow> Inr (AIMessage t []))"

text \<open>\<^verbatim>\<open>{k: v for k, v in value.items() if v is not None}\<close>\<close>

fun drop_none :: "(string \<times> string option) list \<Rightarrow> (string \<times> string) list" where
  "drop_none [] = []"
| "drop_none ((k, None) # kvs) = drop_none kvs"
| "drop_none ((k, Some v) # kvs) = (k, v) # drop_none kvs"

text \<open>How an f-string prints a value that is a string or None.\<close>

definition str_or_None :: "string option \<Rightarrow> string" where
  "str_or_None v = (case v of None \<Rightarrow> ''None'' | Some s \<Rightarrow> s)"

definition previous_goal_message :: "string \<Rightarrow> queue_item" where
  "previous_goal_message g = AIMessage (''*Previous Goal*:\<newline>'' @ g) []"

definition memory_message :: "string \<Rightarrow> queue_item" where
  "memory_message g = AIMessage (''*Memory*:\<newline>'' @ g) []"

definition next_goal_message :: "string \<Rightarrow> queue_item" where
  "next_goal_message g = AIMessage (''*Next Goal*:\<newline>'' @ g) []"

definition basic_done_message :: "string \<Rightarrow> string" where
  \<open>basic_done_message text =
     ''<div style='' @ [CHR 0x27] @ ''font-size:16px;padding:10px;'' @ [CHR 0x27] @ ''>'' @ emoji_check @ '' '' @ text @ ''</div>''\<close>

definition combined_message :: "string \<Rightarrow> string \<Rightarrow> string" where
  \<open>combined_message text report =
     ''<div style='' @ [CHR 0x27] @ ''font-size:16px;padding:10px;background:#f0f0f0;border-radius:8px;margin:10px 0;'' @ [CHR 0x27] @ ''>'' @ emoji_check @ '' '' @ text @ ''</div>'' @
     ''\<newline>\<newline>'' @
     ''<div style='' @ [CHR 0x27] @ ''font-size:15px;padding:15px;background:#f8f8f8;border-radius:8px;border:2px solid #ddd;margin:15px 0;white-space:pre-wrap;'' @ [CHR 0x27] @ ''>'' @ report @ ''</div>''\<close>

text \<open>The three goal messages at the head of the callback, each followed by the stop dict.\<close>

definition put_goals :: "agent_output \<Rightarrow> int \<Rightarrow> agent_module \<Rightarrow> agent_module" where
  "put_goals agent_output step_number m =
     (let st = current_state agent_output;
          m1 = (if step_number > 2 \<and> evaluation_previous_goal st \<noteq> []
                then put Stop_dict (put (previous_goal_message (evaluation_previous_goal st)) m)
                else m);
          m2 = (if memory st \<noteq> []
                then put Stop_dict (put (memory_message (memory st)) m1)
                else m1)
      in if next_goal st \<noteq> []
         then put Stop_dict (put (next_goal_message (next_goal st)) m2)
         else m2)"

text \<open>
  The state of the two processing loops: the module, and the tool calls and tool outputs
  collected so far. A loop body goes on, or returns from the callback, or raises.
\<close>

record step_acc =
  acc_module :: agent_module
  acc_tool_calls :: "tool_call list"
  acc_tool_outputs :: "queue_item list"

datatype step_flow =
    Go_on step_acc
  | Returned agent_module
  | Raised_in py_error agent_module

text \<open>
  The body of the inner loop for one item of an action model. \<open>uuid4 k\<close> is the UUID
  drawn for the \<open>k\<close>-th tool call of the step.
\<close>

fun process_item ::
  "(page_data \<Rightarrow> py_error + string) \<Rightarrow> (nat \<Rightarrow> string) \<Rightarrow>
     string \<times> (string \<times> string option) list option \<Rightarrow> step_acc \<Rightarrow> step_flow" where
  "process_item basic_sections uuid4 (key, None) acc = Go_on acc"
| "process_item basic_sections uuid4 (key, Some d) acc =
     (if d = [] then Go_on acc
      else if key = ''done'' then
        (case done_text d of
           Inl e \<Rightarrow> Raised_in e (acc_module acc)
         | Inr text \<Rightarrow>
             if finished (acc_module acc) \<or> done_processed (acc_module acc) = Some True
             then Go_on (acc\<lparr>acc_module :=
                    put Stop_dict
                      (put (AIMessage (basic_done_message (str_or_None text)) [])
                         (acc_module acc))\<rparr>)
             else
               (case show_performance_metrics basic_sections
                       ((set_finished True (acc_module acc))\<lparr>done_processed := Some True\<rparr>) of
                  (report, m2) \<Rightarrow>
                    if report \<noteq> []
                    then Returned
                           (put Stop_dict
                              (put (AIMessage (combined_message (str_or_None text) report) []) m2))
                    else (case plain_done_message text of
                            Inl e \<Rightarrow> Raised_in e m2
                          | Inr done_message \<Rightarrow>
                              Go_on (acc\<lparr>acc_module := put Stop_dict (put done_message m2)\<rparr>))))
      else
        Go_on (acc\<lparr>acc_tool_calls := acc_tool_calls acc @
                      [\<lparr>tc_name = key, tc_args = drop_none d,
                        tc_id = ''tool_call_'' @ uuid4 (length (acc_tool_calls acc))\<rparr>],
                    acc_tool_outputs := acc_tool_outputs acc @
                      [ToolMessage [] (''tool_call_'' @ uuid4 (length (acc_tool_calls acc)))]\<rparr>))"

text \<open>The inner loop over the items of one action model, and the outer loop over the models.\<close>

fun process_model ::
  "(page_data \<Rightarrow> py_error + string) \<Rightarrow> (nat \<Rightarrow> string) \<Rightarrow> action_dump \<Rightarrow> step_acc \<Rightarrow> step_flow" where
  "process_model basic_sections uuid4 [] acc = Go_on acc"
| "process_model basic_sections uuid4 (kv # kvs) acc =
     (case process_item basic_sections uuid4 kv acc of
        Go_on acc' \<Rightarrow> process_model basic_sections uuid4 kvs acc'
      | Returned m \<Rightarrow> Returned m
      | Raised_in e m \<Rightarrow> Raised_in e m)"

fun process_actions ::
  "(page_data \<Rightarrow> py_error + string) \<Rightarrow> (nat \<Rightarrow> string) \<Rightarrow> action_dump list \<Rightarrow> step_acc \<Rightarrow> step_flow" where
  "process_actions basic_sections uuid4 [] acc = Go_on acc"
| "process_actions basic_sections uuid4 (action_model # models) acc =
     (case process_model basic_sections uuid4 action_model acc of
        Go_on acc' \<Rightarrow> process_actions basic_sections uuid4 models acc'
      | Returned m \<Rightarrow> Returned m
      | Raised_in e m \<Rightarrow> Raised_in e m)"

text \<open>The tool-call message and the tool outputs that end a step without a return.\<close>

definition put_tool_calls :: "step_acc \<Rightarrow> agent_module" where
  "put_tool_calls acc =
     (if acc_tool_calls acc \<noteq> []
      then foldl (\<lambda>m x. put x m) (put (AIMessage [] (acc_tool_calls acc)) (acc_module acc))
             (acc_tool_outputs acc)
      else acc_module acc)"

text \<open>
  \<open>yield_data\<close>: the module after the callback. The body runs inside \<open>try\<close>; the
  handler puts one message with the text of the exception.
\<close>

definition yield_data ::
  "(page_data \<Rightarrow> py_error + string) \<Rightarrow> (nat \<Rightarrow> string) \<Rightarrow> agent_output \<Rightarrow> int \<Rightarrow>
     agent_module \<Rightarrow> agent_module" where
  "yield_data basic_sections uuid4 agent_output step_number m =
     (let m0 = (case done_processed m of
                  None \<Rightarrow> m\<lparr>done_processed := Some False\<rparr>
                | Some b \<Rightarrow> m);
          m1 = put_goals agent_output step_number m0
      in if has_done_action agent_output \<and> (done_processed m1 = Some True \<or> finished m1)
         then m1
         else (case process_actions basic_sections uuid4 (action agent_output)
                      \<lparr>acc_module = m1, acc_tool_calls = [], acc_tool_outputs = []\<rparr> of
                 Go_on acc \<Rightarrow> put_tool_calls acc
               | Returned m' \<Rightarrow> m'
               | Raised_in e m' \<Rightarrow>
                   put (AIMessage (''Error processing agent step: '' @ str_error e) []) m'))"

subsection \<open>The streaming entry point \<open>browser_use_agent\<close>\<close>

text \<open>
  The chat history: a list of items, each a dict (with values that are strings or
  something else, given by the name of its type) or not a dict (given by the text of
  its type, as \<open>type(x)\<close> prints it).
\<close>

datatype history_value = Str_value string | Other_value_of string

datatype history_item = Dict_item "(string \<times> history_value) list" | Not_a_dict string

text \<open>\<^verbatim>\<open>history[-1]["content"]\<close>, the task handed to the agent.\<close>

definition last_content :: "history_item list \<Rightarrow> py_error + history_value" where
  "last_content history =
     (if history = [] then Inl (IndexError ''list index out of range'')
      else (case last history of
              Not_a_dict t \<Rightarrow> Inl (TypeError (''cannot index '' @ t @ '' with a string''))
            | Dict_item d \<Rightarrow>
                (case map_of d ''content'' of
                   None \<Rightarrow> Inl (KeyError ([CHR 0x27] @ ''content'' @ [CHR 0x27]))
                 | Some v \<Rightarrow> Inr v)))"

text \<open>\<^verbatim>\<open>f"{STEEL_CONNECT_URL}?apiKey={STEEL_API_KEY}&sessionId={session_id}"\<close>\<close>

definition cdp_url :: "(string \<rightharpoonup> string) \<Rightarrow> string \<Rightarrow> string" where
  "cdp_url env sid =
     str_or_None (env ''STEEL_CONNECT_URL'') @ ''?apiKey='' @ str_or_None (env ''STEEL_API_KEY'')
       @ ''&sessionId='' @ sid"

text \<open>\<^verbatim>\<open>if hasattr(yield_data, "_done_processed"): yield_data._done_processed = False\<close>\<close>

definition reset_done_processed :: "agent_module \<Rightarrow> agent_module" where
  "reset_done_processed m =
     (case done_processed m of
        None \<Rightarrow> m
      | Some b \<Rightarrow> m\<lparr>done_processed := Some False\<rparr>)"

text \<open>Deleting the session's metrics and creating the entry anew.\<close>

definition clear_metrics :: "string \<Rightarrow> agent_module \<Rightarrow> agent_module" where
  "clear_metrics sid m = m\<lparr>session_metrics_storage := (session_metrics_storage m)(sid \<mapsto> [])\<rparr>"

text \<open>\<open>controller.set_session_id(session_id)\<close>\<close>

definition set_session_id :: "string \<Rightarrow> agent_module \<Rightarrow> agent_module" where
  "set_session_id sid m =
     set_finished False
       (touch_session sid (m\<lparr>controller := (controller m)\<lparr>controller_session_id := Some sid\<rparr>\<rparr>))"

text \<open>
  The code of the entry point before its \<open>try\<close>: the exception that ends it, if any,
  and the module at that point. The calls into the automation runtime (installing the
  monitoring hooks, constructing and starting the agent) are taken to succeed; a new
  agent is not paused.
\<close>

definition start_run ::
  "(string \<rightharpoonup> string) \<Rightarrow> agent_module \<Rightarrow> ModelConfig \<Rightarrow> history_item list \<Rightarrow> string \<Rightarrow>
     py_error option \<times> agent_module" where
  "start_run env m model_config history sid =
     (let m1 = clear_metrics sid (reset_done_processed m) in
      case create_llm env model_config of
        Inl e \<Rightarrow> (Some e, m1)
      | Inr llm \<Rightarrow>
          let m2 = (set_finished False (set_session_id sid m1))
                     \<lparr>agent_resumed := False, queue := []\<rparr>
          in if sid \<in> dom (active_browsers m2) \<and> sid \<notin> dom (active_browser_contexts m2)
             then (Some (KeyError ([CHR 0x27] @ sid @ [CHR 0x27])), m2)
             else
               let m3 = (if sid \<in> dom (active_browsers m2) then m2
                         else m2\<lparr>browsers_created := browsers_created m2 @ [cdp_url env sid],
                                 active_browsers := (active_browsers m2)(sid \<mapsto> cdp_url env sid),
                                 active_browser_contexts :=
                                   (active_browser_contexts m2)(sid \<mapsto> cdp_url env sid)\<rparr>)
               in case last_content history of
                    Inl e \<Rightarrow> (Some e, m3)
                  | Inr task \<Rightarrow> (None, m3\<lparr>agent_paused := False\<rparr>))"

text \<open>
  What happens around the consumption loop while it waits for the queue: the runtime
  calls the step callback; another producer (the completion callback, for one) puts an
  item; the client disconnects (the cancel event is set); the runtime counts too many
  consecutive failures; the agent is paused or resumed (the effect of \<open>pause_execution\<close>
  and \<open>resume_execution\<close> on \<open>_agent_resumed\<close> and on the agent's paused flag); a
  diagnostic action stores a metric.
\<close>

datatype event =
    Step agent_output int
  | Put queue_item
  | Client_disconnects
  | Enough_failures
  | Pause
  | Resume
  | Store_metric string string string

text \<open>The local variables of the loop, with the module, and the items yielded so far.\<close>

record loop_state =
  ls_module :: agent_module
  cancel_set :: bool
  too_many_failures :: bool
  done_called :: bool
  final_report :: "(string \<times> tool_call list) option"
  pending_special_messages :: "queue_item list"
  has_pending_messages :: bool
  yielded :: "queue_item list"

definition on_module :: "(agent_module \<Rightarrow> agent_module) \<Rightarrow> loop_state \<Rightarrow> loop_state" where
  "on_module f s = s\<lparr>ls_module := f (ls_module s)\<rparr>"

fun apply_event ::
  "(page_data \<Rightarrow> py_error + string) \<Rightarrow> (int \<Rightarrow> nat \<Rightarrow> string) \<Rightarrow> loop_state \<Rightarrow> event \<Rightarrow> loop_state" where
  "apply_event basic_sections uuid4 s (Step agent_output step_number) =
     on_module (yield_data basic_sections (uuid4 step_number) agent_output step_number) s"
| "apply_event basic_sections uuid4 s (Put x) = on_module (put x) s"
| "apply_event basic_sections uuid4 s Client_disconnects = s\<lparr>cancel_set := True\<rparr>"
| "apply_event basic_sections uuid4 s Enough_failures = s\<lparr>too_many_failures := True\<rparr>"
| "apply_event basic_sections uuid4 s Pause =
     on_module (\<lambda>m. m\<lparr>agent_resumed := False, agent_paused := True\<rparr>) s"
| "apply_event basic_sections uuid4 s Resume =
     on_module (\<lambda>m. m\<lparr>agent_resumed := True, agent_paused := False\<rparr>) s"
| "apply_event basic_sections uuid4 s (Store_metric page_url metric_type data) =
     on_module (store_metric page_url metric_type data) s"

text \<open>
  One pass of the loop body: the events that happen while the pass waits for the queue,
  and whether stopping the agent raises in this pass (the text of the exception).
\<close>

record iteration =
  events :: "event list"
  stop_raises :: "string option"

definition yield_item :: "queue_item \<Rightarrow> loop_state \<Rightarrow> loop_state" where
  "yield_item x s = s\<lparr>yielded := yielded s @ [x]\<rparr>"

text \<open>Yielding the messages held back during a pause, in their order.\<close>

definition release_pending :: "loop_state \<Rightarrow> loop_state" where
  "release_pending s =
     s\<lparr>yielded := yielded s @ pending_special_messages s,
       pending_special_messages := [], has_pending_messages := False\<rparr>"

fun is_done_or_report_message :: "agent_module \<Rightarrow> queue_item \<Rightarrow> bool" where
  "is_done_or_report_message m (AIMessage content' tcs) =
     (tcs = [] \<and>
      (finished m \<or>
       (content' \<noteq> [] \<and>
        (py_in emoji_chart content' \<or> py_in ''<div'' content' \<or>
         py_in ''PERFORMANCE REPORT'' content'))))"
| "is_done_or_report_message m (ToolMessage c i) = False"
| "is_done_or_report_message m Stop_dict = False"
| "is_done_or_report_message m (Str_item x) = False"

fun is_special_message :: "queue_item \<Rightarrow> bool" where
  "is_special_message (AIMessage content' tcs) =
     (content' \<noteq> [] \<and>
      (py_in ''*Memory*:'' content' \<or> py_in ''*Next Goal*:'' content' \<or>
       py_in ''*Previous Goal*:'' content'))"
| "is_special_message (ToolMessage c i) = False"
| "is_special_message Stop_dict = False"
| "is_special_message (Str_item x) = False"

text \<open>\<^verbatim>\<open>if data.content and "..." in data.content: final_report = data\<close>\<close>

fun saved_report :: "queue_item \<Rightarrow> (string \<times> tool_call list) option \<Rightarrow> (string \<times> tool_call list) option" where
  "saved_report (AIMessage content' tcs) old =
     (if content' \<noteq> [] \<and> py_in emoji_chart content' then Some (content', tcs) else old)"
| "saved_report (ToolMessage c i) old = old"
| "saved_report Stop_dict old = old"
| "saved_report (Str_item x) old = old"

datatype loop_exit = Loop_ends | Loop_raises py_error

text \<open>
  One pass of \<^verbatim>\<open>while True\<close>: None when the loop goes on, or how the loop is left,
  and the state after the pass.
\<close>

definition loop_pass ::
  "(page_data \<Rightarrow> py_error + string) \<Rightarrow> (int \<Rightarrow> nat \<Rightarrow> string) \<Rightarrow> iteration \<Rightarrow> loop_state \<Rightarrow>
     loop_exit option \<times> loop_state" where
  "loop_pass basic_sections uuid4 it s =
     (if cancel_set s then
        (case stop_raises it of
           Some e \<Rightarrow> (Some (Loop_raises (RuntimeError e)), s)
         | None \<Rightarrow> (Some Loop_ends, s))
      else if too_many_failures s then (Some Loop_ends, s)
      else
        let s1 = foldl (apply_event basic_sections uuid4) s (events it) in
        case queue (ls_module s1) of
          [] \<Rightarrow>
            (None,
             if agent_resumed (ls_module s1) \<and> has_pending_messages s1
             then release_pending s1 else s1)
        | data # rest \<Rightarrow>
            let s2 = on_module (\<lambda>m. m\<lparr>queue := rest\<rparr>) s1 in
            if data = END then (Some Loop_ends, s2)
            else
              let s3 = (if agent_resumed (ls_module s2) \<and> pending_special_messages s2 \<noteq> []
                        then release_pending s2 else s2)
              in if is_done_or_report_message (ls_module s3) data then
                   (if done_called s3 then (None, s3)
                    else
                      let s4 = yield_item data
                                 (s3\<lparr>done_called := True,
                                     final_report := saved_report data (final_report s3)\<rparr>)
                      in (case stop_raises it of
                            Some e \<Rightarrow> (None, s4)
                          | None \<Rightarrow> (Some Loop_ends, s4)))
                 else if is_special_message data then
                   (if agent_resumed (ls_module s3) \<or> \<not> agent_paused (ls_module s3)
                    then (None, yield_item data s3)
                    else (None, s3\<lparr>pending_special_messages :=
                                       pending_special_messages s3 @ [data],
                                    has_pending_messages := True\<rparr>))
                 else if \<not> (done_called s3 \<and> finished (ls_module s3))
                 then (None, yield_item data s3)
                 else (None, s3))"

text \<open>
  The loop over the passes that the schedule describes. None: the schedule ends before
  the loop is left (the run is still waiting for the queue).
\<close>

fun consume ::
  "(page_data \<Rightarrow> py_error + string) \<Rightarrow> (int \<Rightarrow> nat \<Rightarrow> string) \<Rightarrow> iteration list \<Rightarrow> loop_state \<Rightarrow>
     (loop_exit \<times> loop_state) option" where
  "consume basic_sections uuid4 [] s = None"
| "consume basic_sections uuid4 (it # its) s =
     (case loop_pass basic_sections uuid4 it s of
        (Some ex, s') \<Rightarrow> Some (ex, s')
      | (None, s') \<Rightarrow> consume basic_sections uuid4 its s')"

definition final_banner :: "string \<Rightarrow> string" where
  \<open>final_banner content' =
     ''\<newline>'' @
     ''----------- FINAL PERFORMANCE REPORT -----------\<newline>'' @
     ''\<newline>'' @ content' @ ''\<newline>'' @
     ''\<newline>'' @
     ''---------------------------------------''\<close>

text \<open>The message that the \<open>finally\<close> block yields for a saved final report.\<close>

definition final_form :: "string \<times> tool_call list \<Rightarrow> queue_item" where
  "final_form fr =
     (case fr of
        (content', tcs) \<Rightarrow>
          if content' \<noteq> [] \<and> py_in ''PERFORMANCE REPORT'' content'
          then AIMessage content' tcs
          else AIMessage (final_banner content') [])"

text \<open>
  The \<open>finally\<close> block: it yields the saved final report, if there is one; it puts the
  HTML report of \<open>force_display_report\<close> and then the sentinel on the queue; it resets
  \<open>_done_processed\<close>.
\<close>

definition finally_block :: "loop_state \<Rightarrow> loop_state" where
  "finally_block s =
     (let s1 = (case final_report s of
                  None \<Rightarrow> s
                | Some fr \<Rightarrow> yield_item (final_form fr) s)
      in on_module
           (\<lambda>m. reset_done_processed
                   (put END (put (AIMessage (force_display_report m) []) m)))
           s1)"

datatype run_outcome = Completed | Raised py_error | Still_running

text \<open>
  A run of the generator, consumed to its end: how it ends, the items it yields (the
  run's output stream), and the module afterwards, whose \<open>queue\<close> holds what was put
  and never taken.
\<close>

record run_result =
  outcome :: run_outcome
  output_stream :: "queue_item list"
  module_after :: agent_module

definition initial_loop_state :: "agent_module \<Rightarrow> loop_state" where
  "initial_loop_state m =
     \<lparr>ls_module = m, cancel_set = False, too_many_failures = False, done_called = False,
      final_report = None, pending_special_messages = [], has_pending_messages = False,
      yielded = []\<rparr>"

definition browser_use_agent ::
  "(string \<rightharpoonup> string) \<Rightarrow> (page_data \<Rightarrow> py_error + string) \<Rightarrow> (int \<Rightarrow> nat \<Rightarrow> string) \<Rightarrow>
     agent_module \<Rightarrow> ModelConfig \<Rightarrow> history_item list \<Rightarrow> string \<Rightarrow> iteration list \<Rightarrow> run_result" where
  "browser_use_agent env basic_sections uuid4 m model_config history sid schedule =
     (case start_run env m model_config history sid of
        (Some e, m') \<Rightarrow> \<lparr>outcome = Raised e, output_stream = [], module_after = m'\<rparr>
      | (None, m') \<Rightarrow>
          (case consume basic_sections uuid4 schedule (initial_loop_state m') of
             None \<Rightarrow> \<lparr>outcome = Still_running, output_stream = [], module_after = m'\<rparr>
           | Some (ex, s) \<Rightarrow>
               \<lparr>outcome = (case ex of Loop_ends \<Rightarrow> Completed | Loop_raises e \<Rightarrow> Raised e),
                output_stream = yielded (finally_block s),
                module_after = ls_module (finally_block s)\<rparr>))"

subsection \<open>The batch entry point \<open>browser_use_agent_batch\<close>\<close>

text \<open>
  Between the creation of the browser and the end of \<open>agent.run\<close> the entry point is
  in the hands of the automation runtime (installing the monitoring hooks, constructing
  the agent, running it, with the batch callbacks it calls). That part is the parameter
  \<open>agent_run\<close>: from the module at its start it gives the module at its end and either
  the text of the exception that it raises or the final report that the callbacks have
  collected (None when there is none).
\<close>

datatype run_end = Run_raises string | Run_returns "string option"

text \<open>The four checks of the history, in the order of the source.\<close>

definition check_history :: "history_item list \<Rightarrow> string option" where
  "check_history history =
     (if history = [] then Some ''Error: Task history is empty.''
      else (case last history of
              Not_a_dict t \<Rightarrow>
                Some (''Error: Invalid history format (last item type: '' @ t @ '').'')
            | Dict_item d \<Rightarrow>
                (case map_of d ''content'' of
                   None \<Rightarrow> Some ''Error: Invalid history format (missing 'content' key).''
                 | Some (Other_value_of t) \<Rightarrow>
                     Some (''Error: Invalid history format (content type: '' @ t @ '').'')
                 | Some (Str_value task) \<Rightarrow> None)))"

text \<open>
  The \<open>finally\<close> block: the session leaves the two maps of active handles, and the
  finished flag is reset when the controller is still bound to the session.
\<close>

definition batch_cleanup :: "string \<Rightarrow> agent_module \<Rightarrow> agent_module" where
  "batch_cleanup sid m =
     (let m1 = m\<lparr>active_browsers := (active_browsers m)(sid := None),
                 active_browser_contexts := (active_browser_contexts m)(sid := None)\<rparr>
      in if controller_session_id (controller m1) = Some sid then set_finished False m1 else m1)"

text \<open>
  \<open>browser_use_agent_batch\<close>: the string it returns, or the exception it raises, and the
  module afterwards.
\<close>

definition browser_use_agent_batch ::
  "(string \<rightharpoonup> string) \<Rightarrow> (agent_module \<Rightarrow> run_end \<times> agent_module) \<Rightarrow> agent_module \<Rightarrow>
     ModelConfig \<Rightarrow> history_item list \<Rightarrow> string \<Rightarrow> (py_error + string) \<times> agent_module" where
  "browser_use_agent_batch env agent_run m model_config history sid =
     (case check_history history of
        Some error_text \<Rightarrow> (Inr error_text, m)
      | None \<Rightarrow>
          let m1 = clear_metrics sid (reset_done_processed m) in
          (case create_llm env model_config of
             Inl e \<Rightarrow> (Inl e, m1)
           | Inr llm \<Rightarrow>
               let m2 = (set_finished False (set_session_id sid m1))\<lparr>agent_resumed := False\<rparr>;
                   m3 = m2\<lparr>browsers_created := browsers_created m2 @ [cdp_url env sid],
                           active_browsers := (active_browsers m2)(sid \<mapsto> cdp_url env sid),
                           active_browser_contexts :=
                             (active_browser_contexts m2)(sid \<mapsto> cdp_url env sid)\<rparr>
               in (case agent_run m3 of
                     (Run_returns collected, m4) \<Rightarrow>
                       (Inr (case collected of
                               None \<Rightarrow> force_display_report m4
                             | Some r \<Rightarrow> if r \<noteq> [] then r else force_display_report m4),
                        batch_cleanup sid m4)
                   | (Run_raises e, m4) \<Rightarrow>
                       (Inr (''Error during batch execution: '' @ e @ ''\<newline>\<newline>''
                              @ force_display_report m4),
                        batch_cleanup sid m4))))"

subsection \<open>Example data for the agent module\<close>

definition idle_module :: agent_module where
  "idle_module =
     \<lparr>controller = \<lparr>controller_session_id = None, controller_finished = False\<rparr>,
      done_processed = None, agent_resumed = False, agent_paused = False,
      session_metrics_storage = Map.empty, active_browsers = Map.empty,
      active_browser_contexts = Map.empty, browsers_created = [], queue = []\<rparr>"

text \<open>A history whose last item has a role and no content.\<close>

definition history_without_content :: "history_item list" where
  "history_without_content =
     [Dict_item [(''role'', Str_value ''user''), (''content'', Str_value ''open example.com'')],
      Dict_item [(''role'', Str_value ''user'')]]"

definition task_history :: "history_item list" where
  "task_history =
     [Dict_item [(''role'', Str_value ''user''), (''content'', Str_value ''open example.com'')]]"

text \<open>A run of the runtime that ends at once and collects nothing.\<close>

definition idle_run :: "agent_module \<Rightarrow> run_end \<times> agent_module" where
  "idle_run m = (Run_returns None, m)"

text \<open>
  A step in which the agent takes the action \<open>done\<close> and no other, with none of the
  three goal texts; and the schedule in which the runtime makes this one step.
\<close>

definition done_step :: agent_output where
  "done_step =
     \<lparr>current_state = \<lparr>evaluation_previous_goal = [], memory = [], next_goal = []\<rparr>,
      action = [[(''done'', Some [(''text'', Some ''All checked'')]), (''click_element'', None)]]\<rparr>"

definition done_schedule :: "iteration list" where
  "done_schedule = [\<lparr>events = [Step done_step 1], stop_raises = None\<rparr>]"

text \<open>The schedule in which the client disconnects while the first pass waits.\<close>

definition cancel_schedule :: "iteration list" where
  "cancel_schedule =
     [\<lparr>events = [Client_disconnects], stop_raises = None\<rparr>,
      \<lparr>events = [], stop_raises = None\<rparr>]"

text \<open>The schedule in which the sentinel arrives first.\<close>

definition end_schedule :: "iteration list" where
  "end_schedule = [\<lparr>events = [Put END], stop_raises = None\<rparr>]"

definition no_sections :: "page_data \<Rightarrow> py_error + string" where
  "no_sections page = Inr []"

definition uuid4_fixed :: "int \<Rightarrow> nat \<Rightarrow> string" where
  "uuid4_fixed step k = ''00000000-0000-4000-8000-000000000000''"

text \<open>
  The module when the loop of a run for session \<open>s1\<close> starts from \<open>idle_module\<close>
  (no environment variables set), and the loop's state after the pass that takes the
  message of \<open>done_step\<close>.
\<close>

definition started_module :: agent_module where
  "started_module =
     idle_module
       \<lparr>controller := \<lparr>controller_session_id = Some ''s1'', controller_finished = False\<rparr>,
        session_metrics_storage := [''s1'' \<mapsto> []],
        active_browsers := [''s1'' \<mapsto> ''None?apiKey=None&sessionId=s1''],
        active_browser_contexts := [''s1'' \<mapsto> ''None?apiKey=None&sessionId=s1''],
        browsers_created := [''None?apiKey=None&sessionId=s1'']\<rparr>"

definition after_done :: loop_state where
  "after_done =
     (initial_loop_state started_module)
       \<lparr>ls_module := (set_finished True started_module)
          \<lparr>done_processed := Some True, queue := [Stop_dict]\<rparr>,
        done_called := True,
        final_report := Some (combined_message ''All checked'' no_data_report, []),
        yielded := [AIMessage (combined_message ''All checked'' no_data_report) []]\<rparr>"

section \<open>Properties\<close>

lemma startswith_iff: "startswith s p \<longleftrightarrow> (\<exists>q. s = p @ q)"
  by (induction s p rule: startswith.induct) auto

lemma py_in_iff: "py_in sub s \<longleftrightarrow> (\<exists>p q. s = p @ sub @ q)"
proof (induction s)
  case Nil
  then show ?case by auto
next
  case (Cons c cs)
  show ?case
  proof
    assume "py_in sub (c # cs)"
    then consider "startswith (c # cs) sub" | "py_in sub cs" by auto
    then show "\<exists>p q. c # cs = p @ sub @ q"
    proof cases
      case 1
      then obtain q where "c # cs = sub @ q" by (auto simp: startswith_iff)
      then have "c # cs = [] @ sub @ q" by simp
      then show ?thesis by blast
    next
      case 2
      then obtain p q where "cs = p @ sub @ q" using Cons.IH by blast
      then have "c # cs = (c # p) @ sub @ q" by simp
      then show ?thesis by blast
    qed
  next
    assume "\<exists>p q. c # cs = p @ sub @ q"
    then obtain p q where pq: "c # cs = p @ sub @ q" by blast
    show "py_in sub (c # cs)"
    proof (cases p)
      case Nil
      with pq have "startswith (c # cs) sub" by (auto simp: startswith_iff)
      then show ?thesis by simp
    next
      case (Cons a p')
      with pq have "cs = p' @ sub @ q" by simp
      then have "py_in sub cs" using Cons.IH by blast
      then show ?thesis by simp
    qed
  qed
qed

subsection \<open>C1: registry dispatch\<close>

text \<open>
  C1 (code defect). The dispatch returns the base agent for BASE and the streaming agent
  for BROWSER_USE, and fails with "Invalid agent type" for the unrecognized member
  EXAMPLE. For BROWSER_USE_BATCH the body evaluates the name
  \<open>browser_use_agent_batch\<close>, which the module never imports: the call raises
  NameError instead of returning the batch entry point.
\<close>

theorem get_web_agent_dispatch:
  "get_web_agent BASE = Inr EP_base_agent \<and>
   get_web_agent BROWSER_USE = Inr EP_browser_use_agent \<and>
   get_web_agent EXAMPLE = Inl (ValueError ''Invalid agent type: WebAgentType.EXAMPLE'') \<and>
   get_web_agent BROWSER_USE_BATCH =
     Inl (NameError ''name 'browser_use_agent_batch' is not defined'') \<and>
   get_web_agent BROWSER_USE_BATCH \<noteq> Inr EP_browser_use_agent_batch"
  by (simp add: get_web_agent_def load_global_def plugins_globals_def)

subsection \<open>The provider factory\<close>

lemma find_None_list_all: "List.find P xs = None \<longleftrightarrow> list_all (\<lambda>x. \<not> P x) xs"
  by (induction xs) auto

lemma constructor_clash_free:
  assumes "list_all (\<lambda>k. k \<notin> set (map fst explicit)) (map fst extra)"
  shows "call_constructor c explicit extra = Inr \<lparr>cls = c, kwargs = explicit @ extra\<rparr>"
proof -
  from assms have "List.find (\<lambda>k. k \<in> set (map fst explicit)) (map fst extra) = None"
    by (simp add: find_None_list_all)
  then show ?thesis by (simp add: call_constructor_def)
qed

lemma constructor_cls: "call_constructor c explicit extra = Inr r \<Longrightarrow> cls r = c"
  by (auto simp: call_constructor_def split: option.splits)

lemma create_llm_member:
  "provider config = Provider p \<Longrightarrow>
   create_llm env config =
     map_sum id (\<lambda>c. (c, p \<noteq> DEEPSEEK))
       (call_constructor (class_for p) (explicit_kwargs env config p) (extra_params config))"
  by (cases p) (simp_all add: create_llm_def)

lemma bind_tools_native: "list_all in_anthropic_format tools \<Longrightarrow> bind_tools conv tools = tools"
  by (induction tools) auto

text \<open>
  C2 (as stated, refuted). For an ANTHROPIC configuration the factory returns a chat
  model whose calls go through the standard message endpoint, not the beta one.
\<close>

theorem create_llm_anthropic_counterexample:
  "routed_endpoint (create_llm Map.empty anthropic_config) = Some Standard_messages"
  by (simp add: routed_endpoint_def create_llm_def anthropic_config_def call_constructor_def
      super_client_def)

text \<open>
  C2 (amended). For every ModelConfig with provider ANTHROPIC, a client returned by the
  provider factory is a plain \<open>ChatAnthropic\<close>, whose calls go through the standard
  message endpoint, and the vision flag is true. Routing through the beta message
  endpoint and passing tools that are already dicts with a \<open>type\<close> key through
  without conversion are what the class \<open>BetaChatAnthropic\<close> does, which the factory
  does not instantiate.
\<close>

theorem create_llm_anthropic_standard:
  "(provider config = Provider ANTHROPIC \<and> create_llm env config = Inr (c, v) \<longrightarrow>
      cls c = ChatAnthropic \<and> v \<and>
      routed_endpoint (create_llm env config) = Some Standard_messages) \<and>
   map_option messages_attr (client_of BetaChatAnthropic) = Some Beta_messages \<and>
   (list_all in_anthropic_format tools \<longrightarrow> bind_tools conv tools = tools)"
proof (intro conjI impI)
  assume a: "provider config = Provider ANTHROPIC \<and> create_llm env config = Inr (c, v)"
  then have p: "provider config = Provider ANTHROPIC"
    and r0: "create_llm env config = Inr (c, v)"
    by simp_all
  from r0 have r: "map_sum id (\<lambda>c. (c, True))
      (call_constructor ChatAnthropic (explicit_kwargs env config ANTHROPIC) (extra_params config))
      = Inr (c, v)"
    by (simp add: create_llm_def p)
  then obtain c' where c': "call_constructor ChatAnthropic (explicit_kwargs env config ANTHROPIC)
      (extra_params config) = Inr c'" and cv: "(c, v) = (c', True)"
    by (cases "call_constructor ChatAnthropic (explicit_kwargs env config ANTHROPIC) (extra_params config)")
       auto
  from c' cv show "cls c = ChatAnthropic" by (simp add: constructor_cls)
  from cv show v by simp
  from r0 \<open>cls c = ChatAnthropic\<close>
  show "routed_endpoint (create_llm env config) = Some Standard_messages"
    by (simp add: routed_endpoint_def super_client_def)
next
  show "map_option messages_attr (client_of BetaChatAnthropic) = Some Beta_messages"
    by (simp add: beta_client_def super_client_def)
next
  assume "list_all in_anthropic_format tools"
  then show "bind_tools conv tools = tools" by (rule bind_tools_native)
qed

theorem create_llm_anthropic_standard_witness:
  "provider anthropic_config = Provider ANTHROPIC \<and>
   create_llm Map.empty anthropic_config =
     Inr (\<lparr>cls = ChatAnthropic,
           kwargs = [(''model'', PStr ''claude-3-7-sonnet-latest''),
                     (''max_tokens_to_sample'', PInt 1000),
                     (''temperature'', PFloat 0.7),
                     (''api_key'', PNone)]\<rparr>, True) \<and>
   routed_endpoint (create_llm Map.empty anthropic_config) = Some Standard_messages \<and>
   list_all in_anthropic_format native_tools \<and>
   bind_tools (\<lambda>t. Object_tool ''converted'') native_tools = native_tools"
proof -
  have p: "provider anthropic_config = Provider ANTHROPIC"
    by (simp add: anthropic_config_def)
  have r: "create_llm Map.empty anthropic_config =
     Inr (\<lparr>cls = ChatAnthropic,
           kwargs = [(''model'', PStr ''claude-3-7-sonnet-latest''),
                     (''max_tokens_to_sample'', PInt 1000),
                     (''temperature'', PFloat 0.7),
                     (''api_key'', PNone)]\<rparr>, True)"
    by (simp add: create_llm_def anthropic_config_def call_constructor_def)
  have n: "list_all in_anthropic_format native_tools"
    by (simp add: native_tools_def)
  from p r n create_llm_anthropic_standard
    [of anthropic_config Map.empty _ True native_tools "\<lambda>t. Object_tool ''converted''"]
  show ?thesis by simp
qed

subsection \<open>C8: the factory's result for each provider\<close>

text \<open>
  C8 (as stated, refuted). A DEEPSEEK configuration whose \<open>extra_params\<close> holds the key
  \<open>base_url\<close> gets no (client, vision) pair: the key repeats a keyword that the factory
  passes itself, and the constructor call raises TypeError.
\<close>

theorem create_llm_pair_counterexample:
  "create_llm Map.empty deepseek_clash_config =
     Inl (TypeError (''got multiple values for keyword argument 'base_url'' @ [CHR 0x27]))"
  by (simp add: create_llm_def deepseek_clash_config_def call_constructor_def)

text \<open>
  C8 (amended). For every ModelConfig whose provider is one of the five supported values
  and whose \<open>extra_params\<close> repeats none of the keywords that the factory passes itself,
  the provider factory returns a (client, vision flag) pair: the client has the
  provider's class and the factory's keywords followed by \<open>extra_params\<close>; the flag is
  false for DEEPSEEK and true otherwise; for ANTHROPIC with no model name (None or the
  empty string) the model is "claude-3-7-sonnet-latest"; for DEEPSEEK the base URL is
  "https://api.deepseek.com/v1". For a provider value that is none of the five the
  factory fails with ValueError "Unsupported provider: ...".
\<close>

theorem create_llm_pair_or_unsupported:
  "(provider config = Provider p \<and> clash_free env config p \<longrightarrow>
      create_llm env config =
        Inr (\<lparr>cls = class_for p,
              kwargs = explicit_kwargs env config p @ extra_params config\<rparr>,
             p \<noteq> DEEPSEEK) \<and>
      (p = ANTHROPIC \<and> (model_name config = None \<or> model_name config = Some []) \<longrightarrow>
         map_of (explicit_kwargs env config p @ extra_params config) ''model''
           = Some (PStr ''claude-3-7-sonnet-latest'')) \<and>
      (p = DEEPSEEK \<longrightarrow>
         map_of (explicit_kwargs env config p @ extra_params config) ''base_url''
           = Some (PStr ''https://api.deepseek.com/v1''))) \<and>
   (provider config' = Other_value s \<longrightarrow>
      create_llm env config' = Inl (ValueError (''Unsupported provider: '' @ s)))"
proof (intro conjI impI)
  assume a: "provider config = Provider p \<and> clash_free env config p"
  then show "create_llm env config =
        Inr (\<lparr>cls = class_for p,
              kwargs = explicit_kwargs env config p @ extra_params config\<rparr>,
             p \<noteq> DEEPSEEK)"
    by (simp add: create_llm_member clash_free_def constructor_clash_free)
next
  assume "p = ANTHROPIC \<and> (model_name config = None \<or> model_name config = Some [])"
  then show "map_of (explicit_kwargs env config p @ extra_params config) ''model''
           = Some (PStr ''claude-3-7-sonnet-latest'')"
    by auto
next
  assume "p = DEEPSEEK"
  then show "map_of (explicit_kwargs env config p @ extra_params config) ''base_url''
           = Some (PStr ''https://api.deepseek.com/v1'')"
    by simp
next
  assume "provider config' = Other_value s"
  then show "create_llm env config' = Inl (ValueError (''Unsupported provider: '' @ s))"
    by (simp add: create_llm_def)
qed

theorem create_llm_pair_or_unsupported_witness:
  "provider anthropic_config = Provider ANTHROPIC \<and>
   clash_free Map.empty anthropic_config ANTHROPIC \<and>
   model_name anthropic_config = None \<and>
   create_llm Map.empty anthropic_config =
     Inr (\<lparr>cls = ChatAnthropic,
           kwargs = [(''model'', PStr ''claude-3-7-sonnet-latest''),
                     (''max_tokens_to_sample'', PInt 1000),
                     (''temperature'', PFloat 0.7),
                     (''api_key'', PNone)]\<rparr>, True) \<and>
   provider deepseek_config = Provider DEEPSEEK \<and>
   clash_free Map.empty deepseek_config DEEPSEEK \<and>
   create_llm Map.empty deepseek_config =
     Inr (\<lparr>cls = ChatOpenAI,
           kwargs = [(''base_url'', PStr ''https://api.deepseek.com/v1''),
                     (''model_name'', PStr ''deepseek-chat''),
                     (''temperature'', PFloat 0.7),
                     (''max_tokens'', PInt 1000),
                     (''api_key'', PSecretStr ''sk-test'')]\<rparr>, False) \<and>
   provider unsupported_config = Other_value ''cohere'' \<and>
   create_llm Map.empty unsupported_config = Inl (ValueError ''Unsupported provider: cohere'')"
proof -
  have a: "provider anthropic_config = Provider ANTHROPIC \<and>
      clash_free Map.empty anthropic_config ANTHROPIC \<and> model_name anthropic_config = None"
    by (simp add: anthropic_config_def clash_free_def)
  have d: "provider deepseek_config = Provider DEEPSEEK \<and>
      clash_free Map.empty deepseek_config DEEPSEEK"
    by (simp add: deepseek_config_def clash_free_def)
  have u: "provider unsupported_config = Other_value ''cohere''"
    by (simp add: unsupported_config_def)
  from a u
    create_llm_pair_or_unsupported
      [of anthropic_config ANTHROPIC Map.empty unsupported_config "''cohere''"]
  have 1: "create_llm Map.empty anthropic_config =
     Inr (\<lparr>cls = ChatAnthropic,
           kwargs = [(''model'', PStr ''claude-3-7-sonnet-latest''),
                     (''max_tokens_to_sample'', PInt 1000),
                     (''temperature'', PFloat 0.7),
                     (''api_key'', PNone)]\<rparr>, True) \<and>
     create_llm Map.empty unsupported_config = Inl (ValueError ''Unsupported provider: cohere'')"
    by (simp add: anthropic_config_def)
  from d
    create_llm_pair_or_unsupported
      [of deepseek_config DEEPSEEK Map.empty unsupported_config "''cohere''"]
  have 2: "create_llm Map.empty deepseek_config =
     Inr (\<lparr>cls = ChatOpenAI,
           kwargs = [(''base_url'', PStr ''https://api.deepseek.com/v1''),
                     (''model_name'', PStr ''deepseek-chat''),
                     (''temperature'', PFloat 0.7),
                     (''max_tokens'', PInt 1000),
                     (''api_key'', PSecretStr ''sk-test'')]\<rparr>, False)"
    by (simp add: deepseek_config_def getenv_default_def)
  from a d u 1 2 show ?thesis by simp
qed

subsection \<open>The agent module: containment, the callback, the run of the examples\<close>

lemma py_in_prefix: "py_in sub (sub @ rest)"
  using py_in_iff [of sub "sub @ rest"] by (metis append_Nil)

lemma py_in_appendI1: "py_in sub a \<Longrightarrow> py_in sub (a @ b)"
proof -
  assume "py_in sub a"
  then obtain p q where "a = p @ sub @ q" by (auto simp: py_in_iff)
  then have "a @ b = p @ sub @ (q @ b)" by simp
  then show ?thesis unfolding py_in_iff by blast
qed

lemma py_in_appendI2: "py_in sub b \<Longrightarrow> py_in sub (a @ b)"
proof -
  assume "py_in sub b"
  then obtain p q where "b = p @ sub @ q" by (auto simp: py_in_iff)
  then have "a @ b = (a @ p) @ sub @ q" by simp
  then show ?thesis unfolding py_in_iff by blast
qed

lemma chart_no_data: "py_in emoji_chart no_data_report"
  unfolding no_data_report_def by (rule py_in_prefix)

lemma chart_combined:
  "py_in emoji_chart report \<Longrightarrow> py_in emoji_chart (combined_message text report)"
  unfolding combined_message_def by (intro py_in_appendI2 py_in_appendI1)

lemma chart_final_banner:
  "py_in emoji_chart c \<Longrightarrow> py_in emoji_chart (final_banner c)"
  unfolding final_banner_def by (intro py_in_appendI2 py_in_appendI1)

lemma chart_done: "py_in emoji_chart (combined_message ''All checked'' no_data_report)"
  by (rule chart_combined) (rule chart_no_data)

lemma combined_not_empty: "combined_message text report \<noteq> []"
  by (simp add: combined_message_def)

lemma final_banner_not_empty: "final_banner c \<noteq> []"
  by (simp add: final_banner_def)

lemma no_marker_done:
  "\<not> py_in ''PERFORMANCE REPORT'' (combined_message ''All checked'' no_data_report)"
  by (simp add: combined_message_def no_data_report_def emoji_chart_def emoji_check_def)

text \<open>The goal messages leave the flags of the module as they are.\<close>

lemma put_flags [simp]:
  "done_processed (put x m) = done_processed m" "finished (put x m) = finished m"
  by (simp_all add: put_def finished_def)

lemma put_goals_flags:
  "done_processed (put_goals agent_output step_number m) = done_processed m \<and>
   finished (put_goals agent_output step_number m) = finished m"
  by (simp add: put_goals_def Let_def)

text \<open>
  A step with a \<open>done\<close> action, after one was processed in the run (the flag is set):
  the callback puts the goal messages and nothing else; no completion message and no
  report is put.
\<close>

lemma yield_data_later_done:
  assumes "has_done_action agent_output" and "done_processed m = Some True"
  shows "yield_data basic_sections uuid4 agent_output step_number m =
           put_goals agent_output step_number m"
  using assms by (simp add: yield_data_def Let_def put_goals_flags)

text \<open>What the \<open>finally\<close> block adds to the output stream and to the queue.\<close>

lemma finally_block_yielded:
  "yielded (finally_block s) =
     yielded s @ (case final_report s of None \<Rightarrow> [] | Some fr \<Rightarrow> [final_form fr])"
  by (simp add: finally_block_def on_module_def yield_item_def Let_def split: option.splits)

lemma finally_block_queue:
  "queue (ls_module (finally_block s)) =
     queue (ls_module s) @ [AIMessage (force_display_report (ls_module s)) [], END]"
  by (simp add: finally_block_def on_module_def yield_item_def Let_def put_def
      reset_done_processed_def split: option.splits)

lemma start_run_example:
  "start_run Map.empty idle_module anthropic_config task_history ''s1'' = (None, started_module)"
  by (simp add: start_run_def idle_module_def anthropic_config_def task_history_def
      create_llm_def call_constructor_def clear_metrics_def reset_done_processed_def
      set_session_id_def set_finished_def touch_session_def cdp_url_def str_or_None_def
      last_content_def Let_def started_module_def)

lemma yield_data_done_step:
  "yield_data no_sections (uuid4_fixed 1) done_step 1 started_module =
     (set_finished True started_module)
       \<lparr>done_processed := Some True,
        queue := [AIMessage (combined_message ''All checked'' no_data_report) [], Stop_dict]\<rparr>"
  by (simp add: yield_data_def put_goals_def done_step_def has_done_action_def Let_def
      started_module_def idle_module_def finished_def set_finished_def done_text_def
      str_or_None_def
      show_performance_metrics_def get_current_session_metrics_def current_pages_def
      touch_session_def put_def no_data_report_def)

lemma loop_pass_done_step:
  "loop_pass no_sections uuid4_fixed \<lparr>events = [Step done_step 1], stop_raises = None\<rparr>
     (initial_loop_state started_module) = (Some Loop_ends, after_done)"
  by (simp add: loop_pass_def initial_loop_state_def on_module_def yield_data_done_step END_def
      Let_def finished_def set_finished_def yield_item_def chart_done combined_not_empty
      after_done_def)

lemma consume_done_schedule:
  "consume no_sections uuid4_fixed done_schedule (initial_loop_state started_module) =
     Some (Loop_ends, after_done)"
  by (simp add: done_schedule_def loop_pass_done_step)

lemma consume_cancel_schedule:
  "consume no_sections uuid4_fixed cancel_schedule (initial_loop_state started_module) =
     Some (Loop_ends, (initial_loop_state started_module)\<lparr>cancel_set := True\<rparr>)"
  by (simp add: cancel_schedule_def loop_pass_def initial_loop_state_def started_module_def
      idle_module_def Let_def)

lemma consume_end_schedule:
  "consume no_sections uuid4_fixed end_schedule (initial_loop_state started_module) =
     Some (Loop_ends, initial_loop_state started_module)"
  by (simp add: end_schedule_def loop_pass_def initial_loop_state_def started_module_def
      idle_module_def Let_def on_module_def put_def)

text \<open>
  Every run that leaves the loop: the \<open>finally\<close> block adds the saved final report (if
  any) to what the loop has yielded, and the HTML report and the sentinel to the queue.
\<close>

lemma browser_use_agent_exit:
  assumes "start_run env m model_config history sid = (None, m')"
    and "consume basic_sections uuid4 schedule (initial_loop_state m') = Some (ex, s)"
  shows "output_stream
           (browser_use_agent env basic_sections uuid4 m model_config history sid schedule) =
           yielded s @ (case final_report s of None \<Rightarrow> [] | Some fr \<Rightarrow> [final_form fr]) \<and>
         queue (module_after
           (browser_use_agent env basic_sections uuid4 m model_config history sid schedule)) =
           queue (ls_module s) @ [AIMessage (force_display_report (ls_module s)) [], END]"
  using assms
  by (simp add: browser_use_agent_def finally_block_yielded finally_block_queue)

subsection \<open>C3: the HTML report at the end of a streaming run\<close>

text \<open>
  C3 (code defect). On every way out of the consumption loop the \<open>finally\<close> block
  builds the HTML report and puts it, and then the sentinel, on the run's queue
  (\<open>finally_block_queue\<close>). But the loop that takes items from the queue and yields them
  has ended by then, and the block does not yield the report itself
  (\<open>finally_block_yielded\<close>): the report never reaches the output stream of the run. In
  the run where the client disconnects, and in the run where the sentinel arrives first,
  the output stream is empty, while the HTML report and the sentinel are left on the
  queue.
\<close>

theorem stream_report_left_on_queue:
  "browser_use_agent Map.empty no_sections uuid4_fixed idle_module anthropic_config
      task_history ''s1'' cancel_schedule =
     \<lparr>outcome = Completed, output_stream = [],
      module_after =
        started_module\<lparr>queue := [AIMessage (force_display_report started_module) [], END]\<rparr>\<rparr> \<and>
   browser_use_agent Map.empty no_sections uuid4_fixed idle_module anthropic_config
      task_history ''s1'' end_schedule =
     \<lparr>outcome = Completed, output_stream = [],
      module_after =
        started_module\<lparr>queue := [AIMessage (force_display_report started_module) [], END]\<rparr>\<rparr>"
proof -
  have f: "finally_block ((initial_loop_state started_module)\<lparr>cancel_set := c\<rparr>) =
      (initial_loop_state started_module)
        \<lparr>cancel_set := c,
         ls_module :=
           started_module\<lparr>queue := [AIMessage (force_display_report started_module) [], END]\<rparr>\<rparr>"
    for c
    by (simp add: finally_block_def initial_loop_state_def on_module_def put_def
        reset_done_processed_def started_module_def idle_module_def)
  have g: "finally_block (initial_loop_state started_module) =
      (initial_loop_state started_module)
        \<lparr>ls_module :=
           started_module\<lparr>queue := [AIMessage (force_display_report started_module) [], END]\<rparr>\<rparr>"
    by (simp add: finally_block_def initial_loop_state_def on_module_def put_def
        reset_done_processed_def started_module_def idle_module_def)
  have 1: "browser_use_agent Map.empty no_sections uuid4_fixed idle_module anthropic_config
      task_history ''s1'' cancel_schedule =
     \<lparr>outcome = Completed, output_stream = [],
      module_after =
        started_module\<lparr>queue := [AIMessage (force_display_report started_module) [], END]\<rparr>\<rparr>"
    unfolding browser_use_agent_def start_run_example
    by (simp add: consume_cancel_schedule f) (simp add: initial_loop_state_def)
  have 2: "browser_use_agent Map.empty no_sections uuid4_fixed idle_module anthropic_config
      task_history ''s1'' end_schedule =
     \<lparr>outcome = Completed, output_stream = [],
      module_after =
        started_module\<lparr>queue := [AIMessage (force_display_report started_module) [], END]\<rparr>\<rparr>"
    unfolding browser_use_agent_def start_run_example
    by (simp add: consume_end_schedule g) (simp add: initial_loop_state_def)
  from 1 2 show ?thesis by (rule conjI)
qed

subsection \<open>C4: timeout of the session-creation call\<close>

text \<open>
  C4 (as stated, refuted). With the default timeout 90000 the remote call does not
  receive 90000: the endpoint multiplies the value by 1000.
\<close>

theorem create_session_timeout_counterexample:
  "create_session (SessionRequest_defaults BROWSER_USE) \<noteq> Inr (Sessions_create 90000)"
  by (simp add: create_session_def SessionRequest_defaults_def)

text \<open>
  C4 (amended). For every session-creation request that carries an integer timeout
  \<open>t\<close> (90000 when the body leaves it out), the endpoint calls the remote
  session-creation operation with timeout \<open>t * 1000\<close>.
\<close>

theorem create_session_timeout_scaled:
  "timeout request = Some t \<Longrightarrow> create_session request = Inr (Sessions_create (t * 1000))"
  by (simp add: create_session_def)

theorem create_session_timeout_scaled_witness:
  "timeout (SessionRequest_defaults BROWSER_USE) = Some 90000 \<and>
   create_session (SessionRequest_defaults BROWSER_USE) = Inr (Sessions_create 90000000)"
  using create_session_timeout_scaled [of "SessionRequest_defaults BROWSER_USE" 90000]
  by (simp add: SessionRequest_defaults_def)

subsection \<open>C5 and C10: chat requests without a message\<close>

lemma return_empty_stream_raises:
  "return_empty_stream = Inl (NameError ''name 'empty_stream' is not defined'')"
  by (simp add: return_empty_stream_def load_name_def index_globals_def)

lemma handle_chat_no_message:
  assumes "messages request = [] \<or> content (last (messages request)) = []"
  shows "handle_chat ctl request =
           (HTTPException 500 \<lparr>err_message = ''name 'empty_stream' is not defined'',
                                err_type = ''NameError'', err_code = 500\<rparr>, ctl)"
proof -
  from assms have c: "messages request = [] \<or>
      (length (messages request) > 0 \<and> content (last (messages request)) = [])"
    by auto
  then have "handle_chat_try ctl request = (return_empty_stream, ctl)"
    unfolding handle_chat_try_def Let_def by (simp only: if_True)
  then show ?thesis
    by (simp add: handle_chat_def return_empty_stream_raises error_response_def)
qed

lemma handle_chat_400_needs_message:
  assumes "fst (handle_chat ctl request) = PlainResponse 400 ''Session ID is required''"
  shows "messages request \<noteq> [] \<and> content (last (messages request)) \<noteq> [] \<and>
         session_id request = []"
proof -
  have ne: "\<not> (messages request = [] \<or> content (last (messages request)) = [])"
  proof
    assume "messages request = [] \<or> content (last (messages request)) = []"
    from handle_chat_no_message [OF this, of ctl] assms show False by simp
  qed
  have "session_id request = []"
  proof (rule ccontr)
    assume s: "session_id request \<noteq> []"
    from ne s assms show False
      by (auto simp: handle_chat_def handle_chat_try_def Let_def return_empty_stream_raises
          error_response_def split: if_splits sum.splits)
  qed
  with ne show ?thesis by simp
qed

text \<open>
  C5 (code defect). For a chat request with an empty message list the endpoint does not
  return the empty-stream encoding: building that response reads the name
  \<open>empty_stream\<close>, which api/index.py neither defines nor imports, so the request ends
  in the error response with status 500 and type NameError. The controller is left as it
  was and no agent run is created.
\<close>

theorem handle_chat_empty_messages:
  "handle_chat idle_controller empty_chat_request =
     (HTTPException 500 \<lparr>err_message = ''name 'empty_stream' is not defined'',
                          err_type = ''NameError'', err_code = 500\<rparr>, idle_controller) \<and>
   fst (handle_chat idle_controller empty_chat_request) \<noteq> StreamingResponse Empty_stream [] \<and>
   \<not> creates_agent_run (fst (handle_chat idle_controller empty_chat_request))"
  by (simp add: handle_chat_def handle_chat_try_def empty_chat_request_def
      return_empty_stream_raises error_response_def)

text \<open>
  C10 (code defect, the same one as C5). The empty-message test does run before the
  session-id test: a request with a blank last message and an empty session id does not
  get the 400 response. It does not get the empty-stream response either, but the 500
  error response, since \<open>empty_stream\<close> is not bound.
\<close>

theorem handle_chat_blank_without_session:
  "handle_chat idle_controller blank_chat_request =
     (HTTPException 500 \<lparr>err_message = ''name 'empty_stream' is not defined'',
                          err_type = ''NameError'', err_code = 500\<rparr>, idle_controller) \<and>
   fst (handle_chat idle_controller blank_chat_request)
     \<noteq> PlainResponse 400 ''Session ID is required'' \<and>
   fst (handle_chat idle_controller blank_chat_request) \<noteq> StreamingResponse Empty_stream []"
  by (simp add: handle_chat_def handle_chat_try_def blank_chat_request_def
      return_empty_stream_raises error_response_def)

subsection \<open>C6: completion and report messages of a streaming run\<close>

lemma finally_after_done:
  "finally_block after_done =
     after_done
       \<lparr>ls_module := (set_finished True started_module)
          \<lparr>done_processed := Some False,
           queue := [Stop_dict, AIMessage (force_display_report started_module) [], END]\<rparr>,
        yielded := [AIMessage (combined_message ''All checked'' no_data_report) [],
                    AIMessage (final_banner (combined_message ''All checked'' no_data_report)) []]\<rparr>"
  by (simp add: finally_block_def after_done_def final_form_def no_marker_done
      combined_not_empty yield_item_def on_module_def initial_loop_state_def
      reset_done_processed_def put_def force_display_report_def current_pages_def
      set_finished_def started_module_def idle_module_def)

text \<open>
  C6 (code defect). A later step with a \<open>done\<close> action puts no completion message and
  no report (\<open>yield_data_later_done\<close>). But the \<open>finally\<close> block yields the saved
  final report once more, though the loop has yielded it already: in the run whose one
  step takes the action \<open>done\<close>, the loop forwards the combined completion and report
  message and ends, and the output stream then holds the same text again under the
  banner "FINAL PERFORMANCE REPORT". Both are messages without tool calls that carry the
  report marker.
\<close>

theorem stream_report_forwarded_twice:
  "output_stream
     (browser_use_agent Map.empty no_sections uuid4_fixed idle_module anthropic_config
        task_history ''s1'' done_schedule) =
     [AIMessage (combined_message ''All checked'' no_data_report) [],
      AIMessage (final_banner (combined_message ''All checked'' no_data_report)) []] \<and>
   list_all (is_done_or_report_message idle_module)
     (output_stream
        (browser_use_agent Map.empty no_sections uuid4_fixed idle_module anthropic_config
           task_history ''s1'' done_schedule)) \<and>
   length
     (output_stream
        (browser_use_agent Map.empty no_sections uuid4_fixed idle_module anthropic_config
           task_history ''s1'' done_schedule)) = 2"
proof -
  have r: "output_stream
     (browser_use_agent Map.empty no_sections uuid4_fixed idle_module anthropic_config
        task_history ''s1'' done_schedule) =
     [AIMessage (combined_message ''All checked'' no_data_report) [],
      AIMessage (final_banner (combined_message ''All checked'' no_data_report)) []]"
    unfolding browser_use_agent_def start_run_example
    by (simp add: consume_done_schedule finally_after_done)
  have m: "list_all (is_done_or_report_message idle_module)
     [AIMessage (combined_message ''All checked'' no_data_report) [],
      AIMessage (final_banner (combined_message ''All checked'' no_data_report)) []]"
    by (simp add: chart_done chart_final_banner combined_not_empty final_banner_not_empty)
  from r m show ?thesis by simp
qed

subsection \<open>C7: two resume requests within the cooldown\<close>

lemma resume_attempts_calls: "snd (resume_attempts run now i k e) \<le> k"
  by (induction k arbitrary: i e)
     (auto simp: case_prod_beta split: attempt.splits option.splits)

lemma resume_attempts_calls_pos: "0 < k \<Longrightarrow> 1 \<le> snd (resume_attempts run now i k e)"
  by (cases k) (auto simp: case_prod_beta split: attempt.splits)

lemma resume_attempts_first_success:
  "run i = Returns ''success'' m \<Longrightarrow> snd (resume_attempts run now i (Suc k) e) = 1"
  by simp

lemma resume_session_performs:
  assumes "performs_resume g sid now w"
  shows "\<exists>r g'. resume_session g sid now w run =
                   (r, g', snd (resume_attempts run now 0 2 None)) \<and>
                 session_last_resume g' sid = Some now"
  using assms
  by (auto simp: resume_session_def performs_resume_def Let_def split: prod.splits)

lemma resume_session_cooldown:
  assumes "session_last_resume g sid = Some t" and "now - t < 1"
  shows "resume_session g sid now w run = (already_in_progress now, g, 0)"
  using assms by (simp add: resume_session_def in_cooldown_def RESUME_COOLDOWN_def)

text \<open>
  C7 (as stated, refuted). The session was resumed at time 0. A first request at 0.9 is
  answered from the cooldown and leaves the recorded time at 0; a second request at 1.5,
  0.6 seconds after the first, is past the cooldown: it calls the resume logic and is
  answered with that call's result, not with "Resume already in progress".
\<close>

theorem resume_twice_counterexample:
  "resume_twice resumed_at_0 ''session-1'' (9 / 10) resume_ok (3 / 2) resume_ok =
     ((already_in_progress (9 / 10), 0),
      (Json \<lparr>status = ''success'', message = ''Agent resumed'', is_resumed = Some True,
             timestamp = Some (3 / 2)\<rparr>, 1))"
  by (simp add: resume_twice_def resume_session_def in_cooldown_def RESUME_COOLDOWN_def
      resumed_at_0_def resume_ok_def already_in_progress_def numeral_2_eq_2)

text \<open>
  C7 (amended). Two resume requests for the same session id are handled one after the
  other. If the first passes the cooldown test and gets the session's lock, so that it
  performs the resume and records its time, and the second arrives within 1.0 second of
  the first, then the second request makes no call of the resume logic and is answered
  with the success-shaped "Resume already in progress" response, leaving the state as it
  is. The first request calls the resume logic at least once and at most twice, and once
  if its first attempt reports success.
\<close>

theorem resume_within_cooldown:
  "performs_resume g sid t1 w1 \<and> t2 - t1 < 1 \<longrightarrow>
     (case resume_session g sid t1 w1 run1 of
        (r1, g1, n1) \<Rightarrow>
          resume_session g1 sid t2 w2 run2 = (already_in_progress t2, g1, 0) \<and>
          1 \<le> n1 \<and> n1 \<le> 2 \<and>
          ((\<exists>m. run1 0 = Returns ''success'' m) \<longrightarrow> n1 = 1))"
proof
  assume a: "performs_resume g sid t1 w1 \<and> t2 - t1 < 1"
  then obtain r g' where
    rs: "resume_session g sid t1 w1 run1 = (r, g', snd (resume_attempts run1 t1 0 2 None))"
    and last: "session_last_resume g' sid = Some t1"
    using resume_session_performs [of g sid t1 w1 run1] by blast
  from a last have second: "resume_session g' sid t2 w2 run2 = (already_in_progress t2, g', 0)"
    by (simp add: resume_session_cooldown)
  have lo: "1 \<le> snd (resume_attempts run1 t1 0 2 None)"
    by (rule resume_attempts_calls_pos) simp
  have hi: "snd (resume_attempts run1 t1 0 2 None) \<le> 2"
    by (rule resume_attempts_calls)
  have one: "(\<exists>m. run1 0 = Returns ''success'' m) \<longrightarrow>
      snd (resume_attempts run1 t1 0 2 None) = 1"
    by (auto simp: numeral_2_eq_2)
  from rs second lo hi one show
    "case resume_session g sid t1 w1 run1 of
        (r1, g1, n1) \<Rightarrow>
          resume_session g1 sid t2 w2 run2 = (already_in_progress t2, g1, 0) \<and>
          1 \<le> n1 \<and> n1 \<le> 2 \<and>
          ((\<exists>m. run1 0 = Returns ''success'' m) \<longrightarrow> n1 = 1)"
    by simp
qed

theorem resume_within_cooldown_witness:
  "performs_resume fresh_gateway ''session-1'' 100 True \<and> (100 + 1 / 2) - 100 < (1::real) \<and>
   resume_twice fresh_gateway ''session-1'' 100 resume_ok (100 + 1 / 2) resume_ok =
     ((Json \<lparr>status = ''success'', message = ''Agent resumed'', is_resumed = Some True,
             timestamp = Some 100\<rparr>, 1),
      (already_in_progress (100 + 1 / 2), 0))"
proof -
  have p: "performs_resume fresh_gateway ''session-1'' 100 True"
    by (simp add: performs_resume_def in_cooldown_def fresh_gateway_def)
  have t: "(100 + 1 / 2) - 100 < (1::real)" by simp
  have first: "fst (resume_session fresh_gateway ''session-1'' 100 True resume_ok) =
      Json \<lparr>status = ''success'', message = ''Agent resumed'', is_resumed = Some True,
             timestamp = Some 100\<rparr>"
    by (simp add: resume_session_def in_cooldown_def fresh_gateway_def resume_ok_def
        numeral_2_eq_2)
  from p t have pt: "performs_resume fresh_gateway ''session-1'' 100 True \<and>
      (100 + 1 / 2) - 100 < (1::real)"
    by (rule conjI)
  from resume_within_cooldown
    [where g = fresh_gateway and sid = "''session-1''" and ?t1.0 = 100 and ?w1.0 = True
       and ?t2.0 = "100 + 1 / 2" and ?run1.0 = resume_ok and ?w2.0 = True
       and ?run2.0 = resume_ok] pt
  have "case resume_session fresh_gateway ''session-1'' 100 True resume_ok of
        (r1, g1, n1) \<Rightarrow>
          resume_session g1 ''session-1'' (100 + 1 / 2) True resume_ok =
            (already_in_progress (100 + 1 / 2), g1, 0) \<and>
          1 \<le> n1 \<and> n1 \<le> 2 \<and>
          ((\<exists>m. resume_ok 0 = Returns ''success'' m) \<longrightarrow> n1 = 1)"
    by (rule mp)
  with first have "resume_twice fresh_gateway ''session-1'' 100 resume_ok (100 + 1 / 2) resume_ok =
     ((Json \<lparr>status = ''success'', message = ''Agent resumed'', is_resumed = Some True,
             timestamp = Some 100\<rparr>, 1),
      (already_in_progress (100 + 1 / 2), 0))"
    by (auto simp: resume_twice_def resume_ok_def split: prod.splits)
  with p t show ?thesis by blast
qed

subsection \<open>C9: a history whose last item has no content\<close>

lemma check_history_missing_content:
  assumes "history \<noteq> []" and "last history = Dict_item d" and "''content'' \<notin> set (map fst d)"
  shows "check_history history = Some ''Error: Invalid history format (missing 'content' key).''"
proof -
  from assms(3) have "map_of d ''content'' = None"
    by (simp add: map_of_eq_None_iff)
  with assms(1,2) show ?thesis by (simp add: check_history_def)
qed

text \<open>
  C9. For every history whose last item is a dict without the key \<open>content\<close>, the batch
  entry point returns (it does not raise) the string "Error: Invalid history format
  (missing 'content' key).", which contains "missing 'content' key"; the module is left
  as it was: no browser is constructed, and the maps of active browsers and browsing
  contexts are unchanged.
\<close>

theorem batch_missing_content:
  "history \<noteq> [] \<and> last history = Dict_item d \<and> ''content'' \<notin> set (map fst d) \<longrightarrow>
     browser_use_agent_batch env agent_run m model_config history sid =
       (Inr ''Error: Invalid history format (missing 'content' key).'', m) \<and>
     py_in ''missing 'content' key'' ''Error: Invalid history format (missing 'content' key).'' \<and>
     browsers_created (snd (browser_use_agent_batch env agent_run m model_config history sid))
       = browsers_created m \<and>
     active_browsers (snd (browser_use_agent_batch env agent_run m model_config history sid))
       = active_browsers m \<and>
     active_browser_contexts
       (snd (browser_use_agent_batch env agent_run m model_config history sid))
       = active_browser_contexts m"
proof
  assume a: "history \<noteq> [] \<and> last history = Dict_item d \<and> ''content'' \<notin> set (map fst d)"
  then have c: "check_history history =
      Some ''Error: Invalid history format (missing 'content' key).''"
    by (simp add: check_history_missing_content)
  then have r: "browser_use_agent_batch env agent_run m model_config history sid =
       (Inr ''Error: Invalid history format (missing 'content' key).'', m)"
    by (simp add: browser_use_agent_batch_def)
  have p: "py_in ''missing 'content' key''
      ''Error: Invalid history format (missing 'content' key).''"
    by simp
  from r p show "browser_use_agent_batch env agent_run m model_config history sid =
       (Inr ''Error: Invalid history format (missing 'content' key).'', m) \<and>
     py_in ''missing 'content' key'' ''Error: Invalid history format (missing 'content' key).'' \<and>
     browsers_created (snd (browser_use_agent_batch env agent_run m model_config history sid))
       = browsers_created m \<and>
     active_browsers (snd (browser_use_agent_batch env agent_run m model_config history sid))
       = active_browsers m \<and>
     active_browser_contexts
       (snd (browser_use_agent_batch env agent_run m model_config history sid))
       = active_browser_contexts m"
    by simp
qed

theorem batch_missing_content_witness:
  "history_without_content \<noteq> [] \<and>
   last history_without_content = Dict_item [(''role'', Str_value ''user'')] \<and>
   ''content'' \<notin> set (map fst [(''role'', Str_value ''user'')]) \<and>
   browser_use_agent_batch Map.empty idle_run idle_module anthropic_config
       history_without_content ''batch_test_1'' =
     (Inr ''Error: Invalid history format (missing 'content' key).'', idle_module) \<and>
   browsers_created
     (snd (browser_use_agent_batch Map.empty idle_run idle_module anthropic_config
             history_without_content ''batch_test_1'')) = []"
proof -
  have h: "history_without_content \<noteq> [] \<and>
      last history_without_content = Dict_item [(''role'', Str_value ''user'')] \<and>
      ''content'' \<notin> set (map fst [(''role'', Str_value ''user'')])"
    by (simp add: history_without_content_def)
  from batch_missing_content
    [where history = history_without_content and d = "[(''role'', Str_value ''user'')]"
       and env = Map.empty and agent_run = idle_run and m = idle_module
       and model_config = anthropic_config and sid = "''batch_test_1''"] h
  have "browser_use_agent_batch Map.empty idle_run idle_module anthropic_config
       history_without_content ''batch_test_1'' =
     (Inr ''Error: Invalid history format (missing 'content' key).'', idle_module)"
    by blast
  with h show ?thesis by (simp add: idle_module_def)
qed

end
